theory Spec2Isabelle
  imports Complex_Main "HOL-Library.Multiset"
begin

section \<open>Data model (types.ts)\<close>

text \<open>
  The interfaces of \<^verbatim>\<open>types.ts\<close> as records. An optional field (\<^verbatim>\<open>f?: T\<close>) is an
  \<open>option\<close>. Every field is prefixed with its interface, since several interfaces share
  field names (\<^verbatim>\<open>id\<close>, \<^verbatim>\<open>date\<close>, \<^verbatim>\<open>productId\<close>, \<^verbatim>\<open>qty\<close>).

  Numbers: every quantity and threshold of the application is read from a form with
  \<^verbatim>\<open>parseInt\<close>, so a \<^verbatim>\<open>number\<close> is modelled as an unbounded \<open>int\<close>. The reducers guard
  a movement's quantity with \<^verbatim>\<open>m.quantity || m.qty || 0\<close>, so \<^verbatim>\<open>quantity\<close> is modelled as
  optional as well: the records are cast from the database snapshot unchecked (\<^verbatim>\<open>as Movement[]\<close>).
\<close>

datatype Direction = IN | OUT

record Movement =
  m_id :: string
  m_productId :: "string option"
  m_fgId :: "string option"
  m_type :: Direction
  m_quantity :: "int option"
  m_qty :: "int option"
  m_date :: string
  m_remark :: string
  m_billId :: "string option"
  m_productionId :: "string option"
  m_createdAt :: string
  m_createdBy :: string
  m_batch :: "string option"
  m_expiry :: "string option"

record RMProduct =
  rm_id :: string
  rm_code :: string
  rm_name :: string
  rm_category :: string
  rm_threshold :: int
  rm_barcode :: string
  rm_groups :: "string list"
  rm_exclusive :: bool
  rm_qtyPerFG :: rat

record FGProduct =
  fg_id :: string
  fg_productcode :: string
  fg_barcode :: string
  fg_name :: string
  fg_volume :: string
  fg_group :: string
  fg_batch :: string
  fg_expiry :: string
  fg_threshold :: int

section \<open>Balance reducer (computeBalance)\<close>

text \<open>
  \<^verbatim>\<open>a || d\<close> on a possibly absent number \<open>a\<close> and a number \<open>d\<close>: \<open>a\<close> when it is truthy
  (present and not 0), otherwise \<open>d\<close>.
\<close>

fun orNum :: "int option \<Rightarrow> int \<Rightarrow> int" where
  "orNum None d = d"
| "orNum (Some n) d = (if n = 0 then d else n)"

text \<open>
  \<^verbatim>\<open>(m.quantity || m.qty || 0)\<close>, the expression both reducers use. JavaScript groups it as
  \<^verbatim>\<open>(m.quantity || m.qty) || 0\<close>; on numbers that is the same value as
  \<^verbatim>\<open>m.quantity || (m.qty || 0)\<close>.
\<close>

definition effQty :: "Movement \<Rightarrow> int" where
  "effQty m = orNum (m_quantity m) (orNum (m_qty m) 0)"

text \<open>
  \<^verbatim>\<open>
  const computeBalance = (productId: string, isFG = false) => {
    return movements.reduce((sum, m) => {
      const id = isFG ? m.fgId : m.productId;
      if (id === productId) {
        return sum + (m.type === 'IN' ? (m.quantity || m.qty || 0) : -(m.quantity || m.qty || 0));
      }
      return sum;
    }, 0);
  };
  \<close>
  The movement list is component state that the closure reads; here it is the first
  argument.
\<close>

definition computeBalance :: "Movement list \<Rightarrow> string \<Rightarrow> bool \<Rightarrow> int" where
  "computeBalance movements productId isFG =
     foldl (\<lambda>sum m.
        let id = (if isFG then m_fgId m else m_productId m) in
        if id = Some productId
        then sum + (if m_type m = IN then effQty m else - effQty m)
        else sum) 0 movements"

text \<open>
  The balance as the specification words it: the class-matching key of a movement, its
  signed quantity, and the sum of the signed quantities of the matching movements.
\<close>

definition classKey :: "bool \<Rightarrow> Movement \<Rightarrow> string option" where
  "classKey isFG m = (if isFG then m_fgId m else m_productId m)"

definition signedQty :: "Movement \<Rightarrow> int" where
  "signedQty m = (case m_type m of IN \<Rightarrow> effQty m | OUT \<Rightarrow> - effQty m)"


subsection \<open>The reducer in the arithmetic of the platform\<close>







section \<open>Dashboard (renderDashboard)\<close>

text \<open>
  \<^verbatim>\<open>
  const lowStockRM = rmProducts.filter(p => computeBalance(p.id) <= p.threshold);
  const lowStockFG = fgProducts.filter(p => computeBalance(p.id, true) <= p.threshold);
  \<close>
\<close>

definition lowStockRM :: "Movement list \<Rightarrow> RMProduct list \<Rightarrow> RMProduct list" where
  "lowStockRM movements rmProducts =
     filter (\<lambda>p. computeBalance movements (rm_id p) False \<le> rm_threshold p) rmProducts"

definition lowStockFG :: "Movement list \<Rightarrow> FGProduct list \<Rightarrow> FGProduct list" where
  "lowStockFG movements fgProducts =
     filter (\<lambda>p. computeBalance movements (fg_id p) True \<le> fg_threshold p) fgProducts"

text \<open>
  The 14-day series.
  \<^verbatim>\<open>
  const last14Days = Array.from({ length: 14 }, (_, i) => {
    const d = new Date();
    d.setDate(d.getDate() - (13 - i));
    return d.toISOString().split('T')[0];
  });
  const chartData = last14Days.map(date => {
    const dayMoves = movements.filter(m => m.date === date);
    const d = new Date(date);
    return {
      date: d.toLocaleDateString('en-US', { month: 'short', day: '2-digit' }),
      in: dayMoves.filter(m => m.type === 'IN').reduce((s, m) => s + (m.quantity || m.qty || 0), 0),
      out: dayMoves.filter(m => m.type === 'OUT').reduce((s, m) => s + (m.quantity || m.qty || 0), 0),
    };
  });
  \<close>
  The calendar is the platform's \<^verbatim>\<open>Date\<close>: \<open>isoDaysAgo k\<close> stands for the date string
  that \<^verbatim>\<open>new Date()\<close>, moved back \<open>k\<close> days with \<^verbatim>\<open>setDate\<close> and printed with
  \<^verbatim>\<open>toISOString().split('T')[0]\<close>, gives; \<open>label\<close> stands for
  \<^verbatim>\<open>new Date(date).toLocaleDateString(...)\<close>. Both are parameters.
\<close>

record ChartPoint =
  cp_date :: string
  cp_in :: int
  cp_out :: int

definition last14Days :: "(nat \<Rightarrow> string) \<Rightarrow> string list" where
  "last14Days isoDaysAgo = map (\<lambda>i. isoDaysAgo (13 - i)) [0..<14]"

definition chartData ::
  "(nat \<Rightarrow> string) \<Rightarrow> (string \<Rightarrow> string) \<Rightarrow> Movement list \<Rightarrow> ChartPoint list" where
  "chartData isoDaysAgo label movements =
     map (\<lambda>date.
        let dayMoves = filter (\<lambda>m. m_date m = date) movements in
        \<lparr> cp_date = label date,
          cp_in = foldl (\<lambda>s m. s + effQty m) 0 (filter (\<lambda>m. m_type m = IN) dayMoves),
          cp_out = foldl (\<lambda>s m. s + effQty m) 0 (filter (\<lambda>m. m_type m = OUT) dayMoves) \<rparr>)
       (last14Days isoDaysAgo)"

subsection \<open>The calendar of the 14-day series\<close>

text \<open>
  What the dashboard asks of the platform's \<^verbatim>\<open>Date\<close>. An instant is a number of minutes
  on the UTC time line, a local date and time a number of minutes on the wall clock of
  the browser's time zone; either divided by 1440 is a day number.
  \<^item> \<^verbatim>\<open>new Date()\<close> is the current instant, \<open>cal_now\<close>. The series asks for it once for
    each of its fourteen days within one render; these are taken as one instant.
  \<^item> \<^verbatim>\<open>d.getDate()\<close> and \<^verbatim>\<open>d.setDate(n)\<close> read and set the day of the month of the
    \<^emph>\<open>local\<close> date of \<open>d\<close>: \<^verbatim>\<open>d.setDate(d.getDate() - k)\<close> converts the instant to local
    time (\<open>cal_localOfUtc\<close>), goes back \<open>k\<close> days on the wall clock, keeping the time of
    day, and converts the result back to an instant (\<open>cal_utcOfLocal\<close>).
  \<^item> \<^verbatim>\<open>d.toISOString().split('T')[0]\<close> is the \<^emph>\<open>UTC\<close> date of the instant, printed as
    \<^verbatim>\<open>yyyy-MM-dd\<close> (\<open>cal_isoDate\<close> of its day number).
  \<^item> \<^verbatim>\<open>todayISO()\<close>, that is \<^verbatim>\<open>format(new Date(), 'yyyy-MM-dd')\<close> of date-fns, with which
    the stock flows date a movement, is the \<^emph>\<open>local\<close> date of the current instant.
\<close>

record Calendar =
  cal_now :: int
  cal_localOfUtc :: "int \<Rightarrow> int"
  cal_utcOfLocal :: "int \<Rightarrow> int"
  cal_isoDate :: "int \<Rightarrow> string"

text \<open>
  \<^verbatim>\<open>
  (_, i) => {
    const d = new Date();
    d.setDate(d.getDate() - (13 - i));
    return d.toISOString().split('T')[0];
  }
  \<close>
  with \<open>k\<close> for \<^verbatim>\<open>13 - i\<close>.
\<close>

definition daysAgoISO :: "Calendar \<Rightarrow> nat \<Rightarrow> string" where
  "daysAgoISO cal k =
     (let d = cal_now cal;
          local = cal_localOfUtc cal d - int k * 1440;
          d' = cal_utcOfLocal cal local
      in cal_isoDate cal (d' div 1440))"

definition localDateISO :: "Calendar \<Rightarrow> string" where
  "localDateISO cal = cal_isoDate cal (cal_localOfUtc cal (cal_now cal) div 1440)"

definition renderDashboard_chartData ::
  "Calendar \<Rightarrow> (string \<Rightarrow> string) \<Rightarrow> Movement list \<Rightarrow> ChartPoint list" where
  "renderDashboard_chartData cal label movements = chartData (daysAgoISO cal) label movements"

section \<open>Documents, audit log and reference entities (types.ts)\<close>

record LineItem =
  li_productId :: string
  li_qty :: int
  li_remark :: string

record Bill =
  b_id :: string
  b_billNo :: string
  b_date :: string
  b_supplierId :: string
  b_supplierName :: string
  b_items :: "LineItem list"
  b_createdAt :: string
  b_createdBy :: string
  b_updatedAt :: "string option"
  b_updatedBy :: "string option"

record RmLine =
  rl_rmId :: string
  rl_req :: int
  rl_dmg :: int
  rl_used :: int

record Production =
  p_id :: string
  p_prodNo :: "string option"
  p_date :: string
  p_fgId :: string
  p_fgName :: "string option"
  p_fgQty :: "int option"
  p_quantity :: "int option"
  p_batch :: "string option"
  p_expiry :: "string option"
  p_remark :: "string option"
  p_rmLines :: "RmLine list option"
  p_createdAt :: string
  p_createdBy :: string

record DeliveryNote =
  dn_id :: string
  dn_dnNo :: string
  dn_date :: string
  dn_from :: string
  dn_to :: string
  dn_productionPlan :: string
  dn_prodRef :: string
  dn_generalRemark :: string
  dn_items :: "LineItem list"
  dn_createdAt :: string
  dn_createdBy :: string

record Supplier =
  s_id :: string
  s_name :: string
  s_contact :: string
  s_phone :: string
  s_email :: string
  s_createdAt :: string
  s_createdBy :: string
  s_updatedAt :: "string option"
  s_updatedBy :: "string option"

datatype Role = R_admin | R_power | R_manager | R_store | R_production | R_viewer | R_operator

record User =
  u_id :: string
  u_username :: string
  u_password :: "string option"
  u_role :: Role
  u_permissionLevel :: "string option"
  u_createdAt :: string

text \<open>
  \<^verbatim>\<open>Partial<Supplier>\<close> and \<^verbatim>\<open>Partial<User>\<close>: the state of the supplier and user forms,
  and the shape of a stored supplier or user document, which \<^verbatim>\<open>update\<close> builds field by
  field. A field whose value is \<^verbatim>\<open>undefined\<close> is an absent field.
\<close>

record PartialSupplier =
  ps_id :: "string option"
  ps_name :: "string option"
  ps_contact :: "string option"
  ps_phone :: "string option"
  ps_email :: "string option"
  ps_createdAt :: "string option"
  ps_createdBy :: "string option"
  ps_updatedAt :: "string option"
  ps_updatedBy :: "string option"

record PartialUser =
  pu_id :: "string option"
  pu_username :: "string option"
  pu_password :: "string option"
  pu_role :: "Role option"
  pu_permissionLevel :: "string option"
  pu_createdAt :: "string option"

text \<open>
  The \<^verbatim>\<open>details: any\<close> payload of an audit record: one constructor for each shape that
  a call of \<^verbatim>\<open>logAction\<close> in the modelled flows passes.
\<close>

datatype Details =
    D_QtyRemark int string
  | D_Bill Bill
  | D_DeliveryNote DeliveryNote
  | D_Production Production
  | D_Supplier PartialSupplier
  | D_UsernameRole "string option" "Role option"
  | D_Username "string option"

record AuditLog =
  al_id :: string
  al_at :: "string option"
  al_timestamp :: "string option"
  al_by :: "string option"
  al_username :: "string option"
  al_action :: string
  al_entityId :: "string option"
  al_targetId :: "string option"
  al_details :: Details

section \<open>The shared store and the client\<close>

text \<open>
  The realtime database under \<^verbatim>\<open>CLOUD_ROOT\<close>: one collection per entity, each a list of
  (key, document) pairs with at most one document per key. \<^verbatim>\<open>set(ref(db, path/k), v)\<close>
  overwrites the document at key \<open>k\<close> or adds it; \<^verbatim>\<open>update\<close> merges fields into the
  document at \<open>k\<close> (creating it from the given fields when there is none);
  \<^verbatim>\<open>remove\<close> deletes it.
\<close>

fun dbSet :: "string \<Rightarrow> 'a \<Rightarrow> (string \<times> 'a) list \<Rightarrow> (string \<times> 'a) list" where
  "dbSet k v [] = [(k, v)]"
| "dbSet k v ((k', v') # kvs) = (if k' = k then (k, v) # kvs else (k', v') # dbSet k v kvs)"

fun dbUpdate :: "('a \<Rightarrow> 'a \<Rightarrow> 'a) \<Rightarrow> string \<Rightarrow> 'a \<Rightarrow> (string \<times> 'a) list \<Rightarrow> (string \<times> 'a) list" where
  "dbUpdate merge k patch [] = [(k, patch)]"
| "dbUpdate merge k patch ((k', v') # kvs) =
     (if k' = k then (k, merge patch v') # kvs else (k', v') # dbUpdate merge k patch kvs)"

definition dbRemove :: "string \<Rightarrow> (string \<times> 'a) list \<Rightarrow> (string \<times> 'a) list" where
  "dbRemove k kvs = filter (\<lambda>kv. fst kv \<noteq> k) kvs"

text \<open>A field of the patch replaces the stored field; an absent field leaves it.\<close>

definition orField :: "'a option \<Rightarrow> 'a option \<Rightarrow> 'a option" where
  "orField new old = (case new of Some v \<Rightarrow> Some v | None \<Rightarrow> old)"

definition mergeSupplier :: "PartialSupplier \<Rightarrow> PartialSupplier \<Rightarrow> PartialSupplier" where
  "mergeSupplier patch old =
     \<lparr> ps_id = orField (ps_id patch) (ps_id old),
       ps_name = orField (ps_name patch) (ps_name old),
       ps_contact = orField (ps_contact patch) (ps_contact old),
       ps_phone = orField (ps_phone patch) (ps_phone old),
       ps_email = orField (ps_email patch) (ps_email old),
       ps_createdAt = orField (ps_createdAt patch) (ps_createdAt old),
       ps_createdBy = orField (ps_createdBy patch) (ps_createdBy old),
       ps_updatedAt = orField (ps_updatedAt patch) (ps_updatedAt old),
       ps_updatedBy = orField (ps_updatedBy patch) (ps_updatedBy old) \<rparr>"

definition mergeUser :: "PartialUser \<Rightarrow> PartialUser \<Rightarrow> PartialUser" where
  "mergeUser patch old =
     \<lparr> pu_id = orField (pu_id patch) (pu_id old),
       pu_username = orField (pu_username patch) (pu_username old),
       pu_password = orField (pu_password patch) (pu_password old),
       pu_role = orField (pu_role patch) (pu_role old),
       pu_permissionLevel = orField (pu_permissionLevel patch) (pu_permissionLevel old),
       pu_createdAt = orField (pu_createdAt patch) (pu_createdAt old) \<rparr>"

record Store =
  stockMovements :: "(string \<times> Movement) list"
  fgMovements :: "(string \<times> Movement) list"
  bills :: "(string \<times> Bill) list"
  productions :: "(string \<times> Production) list"
  deliveryNotes :: "(string \<times> DeliveryNote) list"
  suppliers :: "(string \<times> PartialSupplier) list"
  users :: "(string \<times> PartialUser) list"
  auditLogs :: "(string \<times> AuditLog) list"

text \<open>
  What the subscription makes of a snapshot (the \<^verbatim>\<open>onValue\<close> callback on \<^verbatim>\<open>CLOUD_ROOT\<close>):
  \<^verbatim>\<open>
  setMovements(Object.values(data.stockMovements || {}) as Movement[]);
  if (data.fgMovements) {
    const fgMoves = Object.values(data.fgMovements) as Movement[];
    setMovements(prev => {
      const existingIds = new Set(prev.map(m => m.id));
      const newMoves = fgMoves.filter(m => !existingIds.has(m.id));
      return [...prev, ...newMoves];
    });
  }
  \<close>
\<close>

definition snapshotMovements :: "Store \<Rightarrow> Movement list" where
  "snapshotMovements data =
     (let prev = map snd (stockMovements data);
          fgMoves = map snd (fgMovements data);
          existingIds = set (map m_id prev);
          newMoves = filter (\<lambda>m. m_id m \<notin> existingIds) fgMoves
      in prev @ newMoves)"

text \<open>
  The notifications a flow surfaces: the two kinds of toast, and the browser's own
  message when a form does not satisfy the constraints of its inputs.
\<close>

datatype Notice = ToastSuccess string | ToastError string | FormInvalid

text \<open>
  What a handler reads from its surroundings and cannot change: the results of the
  successive calls of \<^verbatim>\<open>genId()\<close>, of \<^verbatim>\<open>new Date().toISOString()\<close> and of \<^verbatim>\<open>todayISO()\<close>
  (the identifier generator and the clock are external), the logged-in user, and the
  movement list the component holds (its cached copy of the store).
\<close>

record Env =
  genIds :: "nat \<Rightarrow> string"
  clockISO :: "nat \<Rightarrow> string"
  clockToday :: "nat \<Rightarrow> string"
  currentUser :: "User option"
  movements :: "Movement list"

text \<open>
  What a handler changes: the store, the notifications shown, and how many identifiers
  and clock readings have been drawn.
\<close>

record World =
  db :: Store
  notices :: "Notice list"
  idCtr :: nat
  tick :: nat

definition genId :: "Env \<Rightarrow> World \<Rightarrow> string \<times> World" where
  "genId env w = (genIds env (idCtr w), w\<lparr> idCtr := Suc (idCtr w) \<rparr>)"

definition nowISO :: "Env \<Rightarrow> World \<Rightarrow> string \<times> World" where
  "nowISO env w = (clockISO env (tick w), w\<lparr> tick := Suc (tick w) \<rparr>)"

definition todayISO :: "Env \<Rightarrow> World \<Rightarrow> string \<times> World" where
  "todayISO env w = (clockToday env (tick w), w\<lparr> tick := Suc (tick w) \<rparr>)"

definition toast :: "Notice \<Rightarrow> World \<Rightarrow> World" where
  "toast n w = w\<lparr> notices := notices w @ [n] \<rparr>"

text \<open>\<^verbatim>\<open>currentUser?.username || 'unknown'\<close>\<close>

definition actor :: "Env \<Rightarrow> string" where
  "actor env =
     (case currentUser env of
        None \<Rightarrow> ''unknown''
      | Some u \<Rightarrow> if u_username u = [] then ''unknown'' else u_username u)"

text \<open>\<^verbatim>\<open>set(ref(db, `${CLOUD_ROOT}/stockMovements/${moveId}`), move)\<close>\<close>

definition setStockMovement :: "string \<Rightarrow> Movement \<Rightarrow> World \<Rightarrow> World" where
  "setStockMovement moveId move w =
     w\<lparr> db := (db w)\<lparr> stockMovements := dbSet moveId move (stockMovements (db w)) \<rparr> \<rparr>"

section \<open>Audit logger (logAction)\<close>

text \<open>
  \<^verbatim>\<open>
  const logAction = async (action: string, entityId: string, details: any) => {
    const logId = genId();
    const log: AuditLog = {
      id: logId,
      at: new Date().toISOString(),
      by: currentUser?.username || 'unknown',
      action,
      entityId,
      details
    };
    await set(ref(db, `${CLOUD_ROOT}/auditLogs/${logId}`), log);
  };
  \<close>
\<close>

definition logAction :: "Env \<Rightarrow> string \<Rightarrow> string \<Rightarrow> Details \<Rightarrow> World \<Rightarrow> World" where
  "logAction env action entityId details w =
     (let (logId, w1) = genId env w;
          (stamp, w2) = nowISO env w1;
          log = \<lparr> al_id = logId, al_at = Some stamp, al_timestamp = None,
                  al_by = Some (actor env), al_username = None, al_action = action,
                  al_entityId = Some entityId, al_targetId = None, al_details = details \<rparr>
      in w2\<lparr> db := (db w2)\<lparr> auditLogs := dbSet logId log (auditLogs (db w2)) \<rparr> \<rparr>)"

section \<open>Stock-in and stock-out flows\<close>

text \<open>
  \<^verbatim>\<open>renderRMIn\<close>:
  \<^verbatim>\<open>
  const handleStockIn = async (e: React.FormEvent) => {
    e.preventDefault();
    if (!selectedProduct || qty <= 0) return;
    const moveId = genId();
    const move: Movement = {
      id: moveId, productId: selectedProduct.id, type: 'IN', quantity: qty,
      date: todayISO(), remark,
      createdAt: new Date().toISOString(), createdBy: currentUser?.username || 'unknown'
    };
    await set(ref(db, `${CLOUD_ROOT}/stockMovements/${moveId}`), move);
    logAction("RM_STOCK_IN", selectedProduct.id, { qty, remark });
    toast.success(`Stock IN successful for ${selectedProduct.name}`);
    ...
  };
  \<close>
  The form state (\<open>selectedProduct\<close>, \<open>qty\<close>, \<open>remark\<close>) is passed as arguments; resetting
  it afterwards is not modelled.
\<close>

definition renderRMIn_handleStockIn ::
  "Env \<Rightarrow> RMProduct option \<Rightarrow> int \<Rightarrow> string \<Rightarrow> World \<Rightarrow> World" where
  "renderRMIn_handleStockIn env selectedProduct qty remark w =
     (case selectedProduct of
        None \<Rightarrow> w
      | Some p \<Rightarrow>
          if qty \<le> 0 then w
          else
            let (moveId, w1) = genId env w;
                (today, w2) = todayISO env w1;
                (now, w3) = nowISO env w2;
                move = \<lparr> m_id = moveId, m_productId = Some (rm_id p), m_fgId = None,
                         m_type = IN, m_quantity = Some qty, m_qty = None, m_date = today,
                         m_remark = remark, m_billId = None, m_productionId = None,
                         m_createdAt = now, m_createdBy = actor env,
                         m_batch = None, m_expiry = None \<rparr>;
                w4 = setStockMovement moveId move w3;
                w5 = logAction env ''RM_STOCK_IN'' (rm_id p) (D_QtyRemark qty remark) w4
            in toast (ToastSuccess (''Stock IN successful for '' @ rm_name p)) w5)"

text \<open>
  \<^verbatim>\<open>renderRMOut\<close>: as stock-in, with direction OUT and, before anything is written,
  \<^verbatim>\<open>
  if (!selectedProduct || qty <= 0) return;
  const bal = computeBalance(selectedProduct.id);
  if (qty > bal) {
    toast.error("Insufficient stock balance");
    return;
  }
  \<close>
\<close>

definition renderRMOut_handleStockOut ::
  "Env \<Rightarrow> RMProduct option \<Rightarrow> int \<Rightarrow> string \<Rightarrow> World \<Rightarrow> World" where
  "renderRMOut_handleStockOut env selectedProduct qty remark w =
     (case selectedProduct of
        None \<Rightarrow> w
      | Some p \<Rightarrow>
          if qty \<le> 0 then w
          else
            let bal = computeBalance (movements env) (rm_id p) False in
            if qty > bal then toast (ToastError ''Insufficient stock balance'') w
            else
              let (moveId, w1) = genId env w;
                  (today, w2) = todayISO env w1;
                  (now, w3) = nowISO env w2;
                  move = \<lparr> m_id = moveId, m_productId = Some (rm_id p), m_fgId = None,
                           m_type = OUT, m_quantity = Some qty, m_qty = None, m_date = today,
                           m_remark = remark, m_billId = None, m_productionId = None,
                           m_createdAt = now, m_createdBy = actor env,
                           m_batch = None, m_expiry = None \<rparr>;
                  w4 = setStockMovement moveId move w3;
                  w5 = logAction env ''RM_STOCK_OUT'' (rm_id p) (D_QtyRemark qty remark) w4
              in toast (ToastSuccess (''Stock OUT successful for '' @ rm_name p)) w5)"

text \<open>\<^verbatim>\<open>renderFGIn\<close> and \<^verbatim>\<open>renderFGOut\<close>: the same two handlers on \<^verbatim>\<open>fgId\<close>.\<close>

definition renderFGIn_handleStockIn ::
  "Env \<Rightarrow> FGProduct option \<Rightarrow> int \<Rightarrow> string \<Rightarrow> World \<Rightarrow> World" where
  "renderFGIn_handleStockIn env selectedProduct qty remark w =
     (case selectedProduct of
        None \<Rightarrow> w
      | Some p \<Rightarrow>
          if qty \<le> 0 then w
          else
            let (moveId, w1) = genId env w;
                (today, w2) = todayISO env w1;
                (now, w3) = nowISO env w2;
                w4 = setStockMovement moveId
                       \<lparr> m_id = moveId, m_productId = None, m_fgId = Some (fg_id p),
                         m_type = IN, m_quantity = Some qty, m_qty = None, m_date = today,
                         m_remark = remark, m_billId = None, m_productionId = None,
                         m_createdAt = now, m_createdBy = actor env,
                         m_batch = None, m_expiry = None \<rparr> w3;
                w5 = logAction env ''FG_STOCK_IN'' (fg_id p) (D_QtyRemark qty remark) w4
            in toast (ToastSuccess (''Stock IN successful for '' @ fg_name p)) w5)"

definition renderFGOut_handleStockOut ::
  "Env \<Rightarrow> FGProduct option \<Rightarrow> int \<Rightarrow> string \<Rightarrow> World \<Rightarrow> World" where
  "renderFGOut_handleStockOut env selectedProduct qty remark w =
     (case selectedProduct of
        None \<Rightarrow> w
      | Some p \<Rightarrow>
          if qty \<le> 0 then w
          else
            let bal = computeBalance (movements env) (fg_id p) True in
            if qty > bal then toast (ToastError ''Insufficient stock balance'') w
            else
              let (moveId, w1) = genId env w;
                  (today, w2) = todayISO env w1;
                  (now, w3) = nowISO env w2;
                  w4 = setStockMovement moveId
                         \<lparr> m_id = moveId, m_productId = None, m_fgId = Some (fg_id p),
                           m_type = OUT, m_quantity = Some qty, m_qty = None, m_date = today,
                           m_remark = remark, m_billId = None, m_productionId = None,
                           m_createdAt = now, m_createdBy = actor env,
                           m_batch = None, m_expiry = None \<rparr> w3;
                  w5 = logAction env ''FG_STOCK_OUT'' (fg_id p) (D_QtyRemark qty remark) w4
              in toast (ToastSuccess (''Stock OUT successful for '' @ fg_name p)) w5)"

section \<open>Production, goods-received and delivery-note flows\<close>

text \<open>
  \<^verbatim>\<open>renderProductionAdd.handleSubmit\<close>: one Production record, then one IN movement on
  the finished good.
  \<^verbatim>\<open>
  if (!selectedFG || qty <= 0) return;
  const id = genId();
  const prod: Production = { id, fgId: selectedFG.id, quantity: qty, batch, expiry,
    date: todayISO(), createdAt: new Date().toISOString(),
    createdBy: currentUser?.username || 'unknown' };
  await set(ref(db, `${CLOUD_ROOT}/productions/${id}`), prod);
  const moveId = genId();
  await set(ref(db, `${CLOUD_ROOT}/stockMovements/${moveId}`), {
    id: moveId, fgId: selectedFG.id, type: 'IN', quantity: qty, date: todayISO(),
    remark: `Production: ${batch}`, createdAt: new Date().toISOString(),
    createdBy: currentUser?.username || 'unknown' });
  logAction("PRODUCTION_ADD", id, prod);
  toast.success("Production record saved");
  \<close>
\<close>

definition renderProductionAdd_handleSubmit ::
  "Env \<Rightarrow> FGProduct option \<Rightarrow> int \<Rightarrow> string \<Rightarrow> string \<Rightarrow> World \<Rightarrow> World" where
  "renderProductionAdd_handleSubmit env selectedFG qty batch expiry w =
     (case selectedFG of
        None \<Rightarrow> w
      | Some fg \<Rightarrow>
          if qty \<le> 0 then w
          else
            let (prodId, w1) = genId env w;
                (today, w2) = todayISO env w1;
                (now, w3) = nowISO env w2;
                prod = \<lparr> p_id = prodId, p_prodNo = None, p_date = today, p_fgId = fg_id fg,
                         p_fgName = None, p_fgQty = None, p_quantity = Some qty,
                         p_batch = Some batch, p_expiry = Some expiry, p_remark = None,
                         p_rmLines = None, p_createdAt = now, p_createdBy = actor env \<rparr>;
                w4 = w3\<lparr> db := (db w3)\<lparr> productions := dbSet prodId prod (productions (db w3)) \<rparr> \<rparr>;
                (moveId, w5) = genId env w4;
                (today', w6) = todayISO env w5;
                (now', w7) = nowISO env w6;
                w8 = setStockMovement moveId
                       \<lparr> m_id = moveId, m_productId = None, m_fgId = Some (fg_id fg),
                         m_type = IN, m_quantity = Some qty, m_qty = None, m_date = today',
                         m_remark = ''Production: '' @ batch, m_billId = None,
                         m_productionId = None, m_createdAt = now',
                         m_createdBy = actor env, m_batch = None, m_expiry = None \<rparr> w7;
                w9 = logAction env ''PRODUCTION_ADD'' prodId (D_Production prod) w8
            in toast (ToastSuccess ''Production record saved'') w9)"

text \<open>
  \<^verbatim>\<open>renderGRN.handleSubmit\<close>. The loop over the lines
  \<^verbatim>\<open>
  for (const item of items) {
    const moveId = genId();
    await set(ref(db, `${CLOUD_ROOT}/stockMovements/${moveId}`), {
      id: moveId, productId: item.productId, type: 'IN', quantity: item.qty, date,
      remark: `GRN: ${billNo}`, billId: id,
      createdAt: new Date().toISOString(), createdBy: currentUser?.username || 'unknown' });
  }
  \<close>
  is the recursion \<open>renderGRN_addMovements\<close>.
\<close>

fun renderGRN_addMovements ::
  "Env \<Rightarrow> string \<Rightarrow> string \<Rightarrow> string \<Rightarrow> LineItem list \<Rightarrow> World \<Rightarrow> World" where
  "renderGRN_addMovements env billId billNo date [] w = w"
| "renderGRN_addMovements env billId billNo date (item # items) w =
     (let (moveId, w1) = genId env w;
          (now, w2) = nowISO env w1;
          w3 = setStockMovement moveId
                 \<lparr> m_id = moveId, m_productId = Some (li_productId item), m_fgId = None,
                   m_type = IN, m_quantity = Some (li_qty item), m_qty = None, m_date = date,
                   m_remark = ''GRN: '' @ billNo, m_billId = Some billId, m_productionId = None,
                   m_createdAt = now, m_createdBy = actor env,
                   m_batch = None, m_expiry = None \<rparr> w2
      in renderGRN_addMovements env billId billNo date items w3)"

text \<open>
  \<^verbatim>\<open>
  const handleSubmit = async (e: React.FormEvent) => {
    e.preventDefault();
    if (!selectedSupplier || items.length === 0) return;
    const id = genId();
    const bill: Bill = { id, billNo, date, supplierId: selectedSupplier.id,
      supplierName: selectedSupplier.name, items,
      createdAt: new Date().toISOString(), createdBy: currentUser?.username || 'unknown' };
    await set(ref(db, `${CLOUD_ROOT}/bills/${id}`), bill);
    for (const item of items) { ... }
    logAction("GRN_ADD", id, bill);
    toast.success("GRN saved and stock updated");
    setCurrentPage('dashboard');
  };
  \<close>
\<close>

definition renderGRN_handleSubmit ::
  "Env \<Rightarrow> Supplier option \<Rightarrow> string \<Rightarrow> string \<Rightarrow> LineItem list \<Rightarrow> World \<Rightarrow> World" where
  "renderGRN_handleSubmit env selectedSupplier billNo date items w =
     (case selectedSupplier of
        None \<Rightarrow> w
      | Some supplier \<Rightarrow>
          if length items = 0 then w
          else
            let (billId, w1) = genId env w;
                (now, w2) = nowISO env w1;
                bill = \<lparr> b_id = billId, b_billNo = billNo, b_date = date,
                         b_supplierId = s_id supplier, b_supplierName = s_name supplier,
                         b_items = items, b_createdAt = now, b_createdBy = actor env,
                         b_updatedAt = None, b_updatedBy = None \<rparr>;
                w3 = w2\<lparr> db := (db w2)\<lparr> bills := dbSet billId bill (bills (db w2)) \<rparr> \<rparr>;
                w4 = renderGRN_addMovements env billId billNo date items w3;
                w5 = logAction env ''GRN_ADD'' billId (D_Bill bill) w4
            in toast (ToastSuccess ''GRN saved and stock updated'') w5)"

text \<open>
  \<^verbatim>\<open>renderDN.handleSubmit\<close>. The stock check runs over all lines before anything is
  written and stops at the first line that asks for more than the balance:
  \<^verbatim>\<open>
  if (items.length === 0) return;
  // Check stock for all items
  for (const item of items) {
    const bal = computeBalance(item.productId, true);
    if (item.qty > bal) {
      toast.error(`Insufficient stock for item ${item.productId}`);
      return;
    }
  }
  \<close>
  Then the delivery note is written, and one OUT movement on \<^verbatim>\<open>fgId\<close> per line:
  \<^verbatim>\<open>
  for (const item of items) {
    const moveId = genId();
    await set(ref(db, `${CLOUD_ROOT}/stockMovements/${moveId}`), {
      id: moveId, fgId: item.productId, type: 'OUT', quantity: item.qty, date,
      remark: `DN: ${dnNo}`,
      createdAt: new Date().toISOString(), createdBy: currentUser?.username || 'unknown' });
  }
  logAction("DN_ADD", id, dn);
  toast.success("Delivery Note saved and stock updated");
  \<close>
\<close>

fun renderDN_addMovements ::
  "Env \<Rightarrow> string \<Rightarrow> string \<Rightarrow> LineItem list \<Rightarrow> World \<Rightarrow> World" where
  "renderDN_addMovements env dnNo date [] w = w"
| "renderDN_addMovements env dnNo date (item # items) w =
     (let (moveId, w1) = genId env w;
          (now, w2) = nowISO env w1;
          w3 = setStockMovement moveId
                 \<lparr> m_id = moveId, m_productId = None, m_fgId = Some (li_productId item),
                   m_type = OUT, m_quantity = Some (li_qty item), m_qty = None, m_date = date,
                   m_remark = ''DN: '' @ dnNo, m_billId = None, m_productionId = None,
                   m_createdAt = now, m_createdBy = actor env,
                   m_batch = None, m_expiry = None \<rparr> w2
      in renderDN_addMovements env dnNo date items w3)"

definition renderDN_handleSubmit ::
  "Env \<Rightarrow> string \<Rightarrow> string \<Rightarrow> string \<Rightarrow> LineItem list \<Rightarrow> World \<Rightarrow> World" where
  "renderDN_handleSubmit env dnNo date to items w =
     (if length items = 0 then w
      else
        case find (\<lambda>item. li_qty item > computeBalance (movements env) (li_productId item) True)
               items of
          Some item \<Rightarrow>
            toast (ToastError (''Insufficient stock for item '' @ li_productId item)) w
        | None \<Rightarrow>
            let (dnId, w1) = genId env w;
                (now, w2) = nowISO env w1;
                dn = \<lparr> dn_id = dnId, dn_dnNo = dnNo, dn_date = date,
                       dn_from = ''Main Warehouse'', dn_to = to, dn_productionPlan = '''',
                       dn_prodRef = '''', dn_generalRemark = '''', dn_items = items,
                       dn_createdAt = now, dn_createdBy = actor env \<rparr>;
                w3 = w2\<lparr> db := (db w2)\<lparr> deliveryNotes := dbSet dnId dn (deliveryNotes (db w2)) \<rparr> \<rparr>;
                w4 = renderDN_addMovements env dnNo date items w3;
                w5 = logAction env ''DN_ADD'' dnId (D_DeliveryNote dn) w4
            in toast (ToastSuccess ''Delivery Note saved and stock updated'') w5)"

section \<open>The forms in front of the issuing handlers\<close>

text \<open>
  A handler is the \<^verbatim>\<open>onSubmit\<close> of a form, and the browser raises \<^verbatim>\<open>submit\<close> only when
  every input of the form satisfies its constraints; otherwise it shows its own message
  and the handler does not run. The constraints are attributes in the markup.

  Delivery note: \<^verbatim>\<open><input type="text" required value={dnNo}>\<close>,
  \<^verbatim>\<open><input type="text" required value={to}>\<close>, \<^verbatim>\<open><input type="date" required value={date}>\<close>,
  and for each line \<^verbatim>\<open><select value={item.productId} required>\<close> (whose first option has
  the value \<^verbatim>\<open>""\<close>) and \<^verbatim>\<open><input type="number" required min="1" value={item.qty}>\<close>.

  Stock-out (RM and FG): \<^verbatim>\<open><select value={selectedProduct?.id || ''} required>\<close> and
  \<^verbatim>\<open><input type="number" required min="1" value={qty}>\<close>.
\<close>

definition renderDN_formValid :: "string \<Rightarrow> string \<Rightarrow> string \<Rightarrow> LineItem list \<Rightarrow> bool" where
  "renderDN_formValid dnNo date to items \<longleftrightarrow>
     dnNo \<noteq> [] \<and> to \<noteq> [] \<and> date \<noteq> []
     \<and> list_all (\<lambda>item. li_productId item \<noteq> [] \<and> 1 \<le> li_qty item) items"

definition renderDN_submit ::
  "Env \<Rightarrow> string \<Rightarrow> string \<Rightarrow> string \<Rightarrow> LineItem list \<Rightarrow> World \<Rightarrow> World" where
  "renderDN_submit env dnNo date to items w =
     (if renderDN_formValid dnNo date to items
      then renderDN_handleSubmit env dnNo date to items w
      else toast FormInvalid w)"

definition renderRMOut_formValid :: "RMProduct option \<Rightarrow> int \<Rightarrow> bool" where
  "renderRMOut_formValid selectedProduct qty \<longleftrightarrow>
     (case selectedProduct of None \<Rightarrow> False | Some p \<Rightarrow> rm_id p \<noteq> []) \<and> 1 \<le> qty"

definition renderRMOut_submit ::
  "Env \<Rightarrow> RMProduct option \<Rightarrow> int \<Rightarrow> string \<Rightarrow> World \<Rightarrow> World" where
  "renderRMOut_submit env selectedProduct qty remark w =
     (if renderRMOut_formValid selectedProduct qty
      then renderRMOut_handleStockOut env selectedProduct qty remark w
      else toast FormInvalid w)"

definition renderFGOut_formValid :: "FGProduct option \<Rightarrow> int \<Rightarrow> bool" where
  "renderFGOut_formValid selectedProduct qty \<longleftrightarrow>
     (case selectedProduct of None \<Rightarrow> False | Some p \<Rightarrow> fg_id p \<noteq> []) \<and> 1 \<le> qty"

definition renderFGOut_submit ::
  "Env \<Rightarrow> FGProduct option \<Rightarrow> int \<Rightarrow> string \<Rightarrow> World \<Rightarrow> World" where
  "renderFGOut_submit env selectedProduct qty remark w =
     (if renderFGOut_formValid selectedProduct qty
      then renderFGOut_handleStockOut env selectedProduct qty remark w
      else toast FormInvalid w)"

text \<open>The notifications that report a failure.\<close>

fun isError :: "Notice \<Rightarrow> bool" where
  "isError (ToastError msg) = True"
| "isError FormInvalid = True"
| "isError (ToastSuccess msg) = False"

section \<open>Supplier and user flows\<close>

text \<open>
  \<^verbatim>\<open>renderSuppliers\<close>:
  \<^verbatim>\<open>
  const handleSubmit = async (e: React.FormEvent) => {
    e.preventDefault();
    if (isEditing) {
      await update(ref(db, `${CLOUD_ROOT}/suppliers/${isEditing}`),
        { ...form, updatedAt: new Date().toISOString(), updatedBy: currentUser?.username });
      logAction("SUPPLIER_EDIT", isEditing, form);
      toast.success("Supplier updated");
    } else {
      const id = genId();
      await set(ref(db, `${CLOUD_ROOT}/suppliers/${id}`),
        { ...form, id, createdAt: new Date().toISOString(), createdBy: currentUser?.username });
      logAction("SUPPLIER_ADD", id, form);
      toast.success("Supplier added");
    }
    ...
  };
  \<close>
  \<open>isEditing\<close> is \<^verbatim>\<open>string | null\<close>; the empty string is falsy as \<^verbatim>\<open>null\<close> is.
\<close>

definition renderSuppliers_handleSubmit ::
  "Env \<Rightarrow> PartialSupplier \<Rightarrow> string option \<Rightarrow> World \<Rightarrow> World" where
  "renderSuppliers_handleSubmit env form isEditing w =
     (if isEditing \<noteq> None \<and> isEditing \<noteq> Some []
      then
        let key = (case isEditing of Some k \<Rightarrow> k | None \<Rightarrow> []);
            (now, w1) = nowISO env w;
            patch = form\<lparr> ps_updatedAt := Some now,
                         ps_updatedBy := map_option u_username (currentUser env) \<rparr>;
            w2 = w1\<lparr> db := (db w1)\<lparr> suppliers :=
                   dbUpdate mergeSupplier key patch (suppliers (db w1)) \<rparr> \<rparr>;
            w3 = logAction env ''SUPPLIER_EDIT'' key (D_Supplier form) w2
        in toast (ToastSuccess ''Supplier updated'') w3
      else
        let (newId, w1) = genId env w;
            (now, w2) = nowISO env w1;
            doc = form\<lparr> ps_id := Some newId, ps_createdAt := Some now,
                       ps_createdBy := map_option u_username (currentUser env) \<rparr>;
            w3 = w2\<lparr> db := (db w2)\<lparr> suppliers := dbSet newId doc (suppliers (db w2)) \<rparr> \<rparr>;
            w4 = logAction env ''SUPPLIER_ADD'' newId (D_Supplier form) w3
        in toast (ToastSuccess ''Supplier added'') w4)"

text \<open>
  The delete button of a supplier row \<open>s\<close>:
  \<^verbatim>\<open>
  onClick={async () => { if(confirm("Delete supplier?")) {
    await remove(ref(db, `${CLOUD_ROOT}/suppliers/${s.id}`));
    logAction("SUPPLIER_DELETE", s.id, s); toast.success("Supplier deleted"); } }}
  \<close>
  \<open>confirmed\<close> is the answer to the dialog. A row without \<^verbatim>\<open>id\<close> prints as
  \<^verbatim>\<open>undefined\<close> in the path.
\<close>

definition renderSuppliers_delete :: "Env \<Rightarrow> PartialSupplier \<Rightarrow> bool \<Rightarrow> World \<Rightarrow> World" where
  "renderSuppliers_delete env s confirmed w =
     (if confirmed
      then
        let key = (case ps_id s of Some k \<Rightarrow> k | None \<Rightarrow> ''undefined'');
            w1 = w\<lparr> db := (db w)\<lparr> suppliers := dbRemove key (suppliers (db w)) \<rparr> \<rparr>;
            w2 = logAction env ''SUPPLIER_DELETE'' key (D_Supplier s) w1
        in toast (ToastSuccess ''Supplier deleted'') w2
      else w)"

text \<open>
  \<^verbatim>\<open>renderUserManagement\<close>:
  \<^verbatim>\<open>
  if (isEditing) {
    await update(ref(db, `${CLOUD_ROOT}/users/${isEditing}`), { ...form });
    logAction("USER_EDIT", isEditing, { username: form.username, role: form.role });
    toast.success("User updated");
  } else {
    const id = genId();
    await set(ref(db, `${CLOUD_ROOT}/users/${id}`), { ...form, id });
    logAction("USER_ADD", id, { username: form.username, role: form.role });
    toast.success("User created");
  }
  \<close>
  and the delete button of a user row \<open>u\<close>:
  \<^verbatim>\<open>
  onClick={async () => { if(confirm("Delete user?")) {
    await remove(ref(db, `${CLOUD_ROOT}/users/${u.id}`));
    logAction("USER_DELETE", u.id, { username: u.username }); toast.success("User deleted"); } }}
  \<close>
\<close>

definition renderUserManagement_handleSubmit ::
  "Env \<Rightarrow> PartialUser \<Rightarrow> string option \<Rightarrow> World \<Rightarrow> World" where
  "renderUserManagement_handleSubmit env form isEditing w =
     (if isEditing \<noteq> None \<and> isEditing \<noteq> Some []
      then
        let key = (case isEditing of Some k \<Rightarrow> k | None \<Rightarrow> []);
            w1 = w\<lparr> db := (db w)\<lparr> users := dbUpdate mergeUser key form (users (db w)) \<rparr> \<rparr>;
            w2 = logAction env ''USER_EDIT'' key
                   (D_UsernameRole (pu_username form) (pu_role form)) w1
        in toast (ToastSuccess ''User updated'') w2
      else
        let (newId, w1) = genId env w;
            doc = form\<lparr> pu_id := Some newId \<rparr>;
            w2 = w1\<lparr> db := (db w1)\<lparr> users := dbSet newId doc (users (db w1)) \<rparr> \<rparr>;
            w3 = logAction env ''USER_ADD'' newId
                   (D_UsernameRole (pu_username form) (pu_role form)) w2
        in toast (ToastSuccess ''User created'') w3)"

definition renderUserManagement_delete :: "Env \<Rightarrow> PartialUser \<Rightarrow> bool \<Rightarrow> World \<Rightarrow> World" where
  "renderUserManagement_delete env u confirmed w =
     (if confirmed
      then
        let key = (case pu_id u of Some k \<Rightarrow> k | None \<Rightarrow> ''undefined'');
            w1 = w\<lparr> db := (db w)\<lparr> users := dbRemove key (users (db w)) \<rparr> \<rparr>;
            w2 = logAction env ''USER_DELETE'' key (D_Username (pu_username u)) w1
        in toast (ToastSuccess ''User deleted'') w2
      else w)"

section \<open>The modelled operations\<close>

text \<open>
  Every flow of the application that writes to the store while a movement can exist,
  with the form state it is run on. \<open>step\<close> runs the handler of an operation.
\<close>

datatype Op =
    RMStockIn "RMProduct option" int string
  | RMStockOut "RMProduct option" int string
  | FGStockIn "FGProduct option" int string
  | FGStockOut "FGProduct option" int string
  | ProductionAdd "FGProduct option" int string string
  | GRNSubmit "Supplier option" string string "LineItem list"
  | DNSubmit string string string "LineItem list"
  | SupplierSubmit PartialSupplier "string option"
  | SupplierDelete PartialSupplier bool
  | UserSubmit PartialUser "string option"
  | UserDelete PartialUser bool

fun step :: "Env \<Rightarrow> Op \<Rightarrow> World \<Rightarrow> World" where
  "step env (RMStockIn p qty remark) w = renderRMIn_handleStockIn env p qty remark w"
| "step env (RMStockOut p qty remark) w = renderRMOut_handleStockOut env p qty remark w"
| "step env (FGStockIn p qty remark) w = renderFGIn_handleStockIn env p qty remark w"
| "step env (FGStockOut p qty remark) w = renderFGOut_handleStockOut env p qty remark w"
| "step env (ProductionAdd fg qty batch expiry) w =
     renderProductionAdd_handleSubmit env fg qty batch expiry w"
| "step env (GRNSubmit supplier billNo date items) w =
     renderGRN_handleSubmit env supplier billNo date items w"
| "step env (DNSubmit dnNo date to items) w = renderDN_handleSubmit env dnNo date to items w"
| "step env (SupplierSubmit form isEditing) w = renderSuppliers_handleSubmit env form isEditing w"
| "step env (SupplierDelete s confirmed) w = renderSuppliers_delete env s confirmed w"
| "step env (UserSubmit form isEditing) w = renderUserManagement_handleSubmit env form isEditing w"
| "step env (UserDelete u confirmed) w = renderUserManagement_delete env u confirmed w"

section \<open>Fresh identifiers\<close>

text \<open>
  \<^verbatim>\<open>genId\<close> builds an identifier from the millisecond clock and a random number below
  1000; the flows rely on it to return an identifier that is not in use. That is the
  assumption \<open>freshIds\<close>: from the current draw on, the identifiers drawn are pairwise
  distinct and none of them is a key of the store.
\<close>

definition storeKeys :: "Store \<Rightarrow> string set" where
  "storeKeys d =
     fst ` set (stockMovements d) \<union> fst ` set (fgMovements d) \<union> fst ` set (bills d)
     \<union> fst ` set (productions d) \<union> fst ` set (deliveryNotes d)
     \<union> fst ` set (suppliers d) \<union> fst ` set (users d) \<union> fst ` set (auditLogs d)"

definition freshIds :: "Env \<Rightarrow> World \<Rightarrow> bool" where
  "freshIds env w \<longleftrightarrow>
     inj_on (genIds env) {idCtr w..} \<and> (\<forall>j\<ge>idCtr w. genIds env j \<notin> storeKeys (db w))"

text \<open>
  The (key, record) pairs that the loop of the GRN handler writes for the lines
  \<open>items\<close>, when the next identifier is draw number \<open>c\<close> and the next clock reading is
  number \<open>t\<close>; and the same for the loop of the delivery-note handler.
\<close>

fun renderGRN_newMovements ::
  "Env \<Rightarrow> string \<Rightarrow> string \<Rightarrow> string \<Rightarrow> LineItem list \<Rightarrow> nat \<Rightarrow> nat \<Rightarrow> (string \<times> Movement) list"
  where
  "renderGRN_newMovements env billId billNo date [] c t = []"
| "renderGRN_newMovements env billId billNo date (item # items) c t =
     (genIds env c,
      \<lparr> m_id = genIds env c, m_productId = Some (li_productId item), m_fgId = None,
        m_type = IN, m_quantity = Some (li_qty item), m_qty = None, m_date = date,
        m_remark = ''GRN: '' @ billNo, m_billId = Some billId, m_productionId = None,
        m_createdAt = clockISO env t, m_createdBy = actor env,
        m_batch = None, m_expiry = None \<rparr>)
     # renderGRN_newMovements env billId billNo date items (Suc c) (Suc t)"

fun renderDN_newMovements ::
  "Env \<Rightarrow> string \<Rightarrow> string \<Rightarrow> LineItem list \<Rightarrow> nat \<Rightarrow> nat \<Rightarrow> (string \<times> Movement) list"
  where
  "renderDN_newMovements env dnNo date [] c t = []"
| "renderDN_newMovements env dnNo date (item # items) c t =
     (genIds env c,
      \<lparr> m_id = genIds env c, m_productId = None, m_fgId = Some (li_productId item),
        m_type = OUT, m_quantity = Some (li_qty item), m_qty = None, m_date = date,
        m_remark = ''DN: '' @ dnNo, m_billId = None, m_productionId = None,
        m_createdAt = clockISO env t, m_createdBy = actor env,
        m_batch = None, m_expiry = None \<rparr>)
     # renderDN_newMovements env dnNo date items (Suc c) (Suc t)"

text \<open>
  What an operation may do to the movements of the store: add records after the
  existing ones, under identifiers drawn from the generator at or after the current
  draw, none of them a key that was in use; the legacy node \<^verbatim>\<open>fgMovements\<close> is left as it
  is.
\<close>

definition appendsMovements :: "Env \<Rightarrow> World \<Rightarrow> World \<Rightarrow> bool" where
  "appendsMovements env w w' \<longleftrightarrow>
     (\<exists>new. stockMovements (db w') = stockMovements (db w) @ new
           \<and> fst ` set new \<subseteq> genIds env ` {idCtr w..}
           \<and> fst ` set new \<inter> fst ` set (stockMovements (db w)) = {})
     \<and> fgMovements (db w') = fgMovements (db w)"

text \<open>
  What an operation does to the movements of the store when nothing is assumed of the
  identifiers: it draws identifiers, and the movements afterwards are those before,
  overridden or extended at identifiers drawn during the operation only.
\<close>

definition writesUnderDrawnIds :: "Env \<Rightarrow> World \<Rightarrow> World \<Rightarrow> bool" where
  "writesUnderDrawnIds env w w' \<longleftrightarrow>
     idCtr w \<le> idCtr w'
     \<and> (\<exists>upd. map_of (stockMovements (db w')) = map_of (stockMovements (db w)) ++ upd
             \<and> dom upd \<subseteq> genIds env ` {idCtr w..<idCtr w'})
     \<and> fgMovements (db w') = fgMovements (db w)"

section \<open>Scenario data\<close>

text \<open>
  The concrete inputs of the scenarios of the specification (section 8): a raw-material
  item with threshold 5, and movements shaped as the stock-in and stock-out flows write
  them (\<^verbatim>\<open>quantity\<close> set, no \<^verbatim>\<open>qty\<close>).
\<close>

definition scenarioItem :: RMProduct where
  "scenarioItem =
     \<lparr> rm_id = ''rm-a'', rm_code = ''A'', rm_name = ''RM-A'', rm_category = ''raw'',
       rm_threshold = 5, rm_barcode = '''', rm_groups = [], rm_exclusive = False,
       rm_qtyPerFG = 1 \<rparr>"

definition scenarioMove :: "string \<Rightarrow> Direction \<Rightarrow> int \<Rightarrow> string \<Rightarrow> Movement" where
  "scenarioMove pid dir q day =
     \<lparr> m_id = ''mv'', m_productId = Some pid, m_fgId = None, m_type = dir,
       m_quantity = Some q, m_qty = None, m_date = day, m_remark = '''',
       m_billId = None, m_productionId = None, m_createdAt = day,
       m_createdBy = ''admin'', m_batch = None, m_expiry = None \<rparr>"

text \<open>
  A store holding one movement, IN 15 on the finished good \<^verbatim>\<open>fg-a\<close>; a client whose
  cached movement list is the snapshot of that store; an identifier generator whose
  draws are \<^verbatim>\<open>id_a\<close>, \<^verbatim>\<open>id_aa\<close>, \<^verbatim>\<open>id_aaa\<close>, ...; and a clock standing at 2024-03-14.
\<close>

definition scenarioIds :: "nat \<Rightarrow> string" where
  "scenarioIds n = ''id_'' @ replicate (Suc n) CHR ''a''"

definition scenarioAdmin :: User where
  "scenarioAdmin =
     \<lparr> u_id = ''admin-init'', u_username = ''admin'', u_password = Some ''admin'',
       u_role = R_admin, u_permissionLevel = None, u_createdAt = ''2024-03-01T08:00:00.000Z'' \<rparr>"

definition scenarioFGIn15 :: Movement where
  "scenarioFGIn15 =
     \<lparr> m_id = ''mv-1'', m_productId = None, m_fgId = Some ''fg-a'', m_type = IN,
       m_quantity = Some 15, m_qty = None, m_date = ''2024-03-01'', m_remark = '''',
       m_billId = None, m_productionId = None, m_createdAt = ''2024-03-01T08:00:00.000Z'',
       m_createdBy = ''admin'', m_batch = None, m_expiry = None \<rparr>"

definition scenarioStore :: Store where
  "scenarioStore =
     \<lparr> stockMovements = [(''mv-1'', scenarioFGIn15)], fgMovements = [], bills = [],
       productions = [], deliveryNotes = [], suppliers = [], users = [], auditLogs = [] \<rparr>"

definition scenarioWorld :: World where
  "scenarioWorld = \<lparr> db = scenarioStore, notices = [], idCtr = 0, tick = 0 \<rparr>"

definition scenarioEnv :: Env where
  "scenarioEnv =
     \<lparr> genIds = scenarioIds, clockISO = (\<lambda>t. ''2024-03-14T10:00:00.000Z''),
       clockToday = (\<lambda>t. ''2024-03-14''), currentUser = Some scenarioAdmin,
       movements = snapshotMovements scenarioStore \<rparr>"

definition scenarioSupplier :: Supplier where
  "scenarioSupplier =
     \<lparr> s_id = ''sup-1'', s_name = ''Acme'', s_contact = '''', s_phone = '''', s_email = '''',
       s_createdAt = ''2024-03-01T08:00:00.000Z'', s_createdBy = ''admin'',
       s_updatedAt = None, s_updatedBy = None \<rparr>"

definition scenarioLine :: "string \<Rightarrow> int \<Rightarrow> LineItem" where
  "scenarioLine pid q = \<lparr> li_productId = pid, li_qty = q, li_remark = '''' \<rparr>"

text \<open>
  Identifiers that are not fresh. \<^verbatim>\<open>genId\<close> is
  \<^verbatim>\<open>'id_' + Date.now().toString(36) + '_' + Math.floor(Math.random() * 1000)\<close>: two draws in
  the same millisecond with the same random number are equal. \<open>scenarioUsedIdWorld\<close> is a
  store in which the identifier drawn next, \<^verbatim>\<open>id_a\<close>, is already the key of a movement and of
  an audit record; \<open>scenarioRepeatEnv\<close> is a generator that returns \<^verbatim>\<open>id_a\<close> at every draw.
\<close>

definition scenarioLog :: AuditLog where
  "scenarioLog =
     \<lparr> al_id = ''id_a'', al_at = Some ''2024-03-14T09:59:59.999Z'', al_timestamp = None,
       al_by = Some ''store'', al_username = None, al_action = ''FG_STOCK_IN'',
       al_entityId = Some ''fg-a'', al_targetId = None, al_details = D_QtyRemark 15 '''' \<rparr>"

definition scenarioUsedIdWorld :: World where
  "scenarioUsedIdWorld =
     scenarioWorld\<lparr> db := scenarioStore
       \<lparr> stockMovements := [(''id_a'', scenarioFGIn15\<lparr> m_id := ''id_a'' \<rparr>)],
         auditLogs := [(''id_a'', scenarioLog)] \<rparr> \<rparr>"

definition scenarioRepeatEnv :: Env where
  "scenarioRepeatEnv = scenarioEnv\<lparr> genIds := (\<lambda>n. ''id_a'') \<rparr>"

text \<open>
  A browser in the time zone Europe/Berlin at 01:30 local time on 2024-04-05. Minutes
  are counted from 2024-03-01T00:00Z, so day 0 is 2024-03-01. Local time is UTC+1 until
  the instant 2024-03-31T01:00Z (minute 43260), when the wall clock jumps from 02:00
  (minute 43320) to 03:00 (minute 43380), and UTC+2 after it; a local time in the
  skipped hour is read with the offset before the jump. The current instant is
  2024-04-04T23:30Z (minute 50370), which is 01:30 on 2024-04-05 on the wall clock.
\<close>

definition twoDigits :: "nat \<Rightarrow> string" where
  "twoDigits n = [''0123456789'' ! (n div 10), ''0123456789'' ! (n mod 10)]"

definition scenarioIsoDate :: "int \<Rightarrow> string" where
  "scenarioIsoDate day =
     (if 0 \<le> day \<and> day < 31 then ''2024-03-'' @ twoDigits (nat day + 1)
      else if 31 \<le> day \<and> day < 61 then ''2024-04-'' @ twoDigits (nat day - 30)
      else '''')"

definition scenarioBerlin :: Calendar where
  "scenarioBerlin =
     \<lparr> cal_now = 50370,
       cal_localOfUtc = (\<lambda>u. if u < 43260 then u + 60 else u + 120),
       cal_utcOfLocal = (\<lambda>l. if l < 43380 then l - 60 else l - 120),
       cal_isoDate = scenarioIsoDate \<rparr>"

section \<open>Properties of the balance reducer\<close>

lemma foldl_balance_acc:
  "foldl (\<lambda>sum m.
        if (if isFG then m_fgId m else m_productId m) = Some i
        then sum + (if m_type m = IN then effQty m else - effQty m)
        else sum) a ms
   = a + sum_list (map signedQty (filter (\<lambda>m. classKey isFG m = Some i) ms))"
  by (induction ms arbitrary: a)
     (auto simp: classKey_def signedQty_def split: Direction.splits)

lemma computeBalance_sum:
  "computeBalance ms i isFG
   = sum_list (map signedQty (filter (\<lambda>m. classKey isFG m = Some i) ms))"
  unfolding computeBalance_def Let_def by (simp add: foldl_balance_acc)

lemma computeBalance_Nil: "computeBalance [] i isFG = 0"
  by (simp add: computeBalance_def)

lemma computeBalance_Cons:
  "computeBalance (m # ms) i isFG
   = (if classKey isFG m = Some i then signedQty m else 0) + computeBalance ms i isFG"
  by (simp add: computeBalance_sum)

lemma computeBalance_append:
  "computeBalance (ms @ ns) i isFG = computeBalance ms i isFG + computeBalance ns i isFG"
  by (simp add: computeBalance_sum)


lemma effQty_cases:
  "effQty m =
     (case m_quantity m of
        Some q \<Rightarrow> if q \<noteq> 0 then q else (case m_qty m of Some r \<Rightarrow> r | None \<Rightarrow> 0)
      | None \<Rightarrow> (case m_qty m of Some r \<Rightarrow> r | None \<Rightarrow> 0))"
  by (simp add: effQty_def split: option.splits)

lemma computeBalance_snoc:
  "computeBalance (ms @ [m]) i isFG
   = computeBalance ms i isFG
     + (if classKey isFG m = Some i
        then (case m_type m of IN \<Rightarrow> effQty m | OUT \<Rightarrow> - effQty m) else 0)"
  by (simp add: computeBalance_sum signedQty_def)

subsection \<open>The reducer on doubles\<close>

















section \<open>Properties of the dashboard\<close>

lemma foldl_effQty_acc:
  "foldl (\<lambda>s m. s + effQty m) a ms = a + sum_list (map effQty ms)"
  by (induction ms arbitrary: a) auto

lemma chartData_eq:
  "chartData d l ms =
     map (\<lambda>k. \<lparr> cp_date = l (d (13 - k)),
                cp_in = sum_list (map effQty
                          (filter (\<lambda>m. m_date m = d (13 - k) \<and> m_type m = IN) ms)),
                cp_out = sum_list (map effQty
                          (filter (\<lambda>m. m_date m = d (13 - k) \<and> m_type m = OUT) ms)) \<rparr>)
         [0..<14]"
  unfolding chartData_def last14Days_def Let_def
  by (simp add: foldl_effQty_acc comp_def conj_commute del: upt.simps)

text \<open>
  C3. An item is in the low-stock list if and only if its balance is at most its
  threshold, for raw materials (balance over \<^verbatim>\<open>productId\<close>) and for finished goods
  (balance over \<^verbatim>\<open>fgId\<close>). The bound is inclusive. With threshold 5: movements
  IN 10, OUT 3 give balance 7 and the item is not low-stock (scenario A); IN 10, OUT 7
  give balance 3 and the item is low-stock (scenario B); IN 10, OUT 5 give balance 5,
  equal to the threshold, and the item is low-stock.
\<close>

theorem lowStock_iff_balance_le_threshold:
  "(p \<in> set (lowStockRM ms rmProducts)
      \<longleftrightarrow> p \<in> set rmProducts \<and> computeBalance ms (rm_id p) False \<le> rm_threshold p)
   \<and> (f \<in> set (lowStockFG ms fgProducts)
      \<longleftrightarrow> f \<in> set fgProducts \<and> computeBalance ms (fg_id f) True \<le> fg_threshold f)
   \<and> computeBalance [scenarioMove ''rm-a'' IN 10 ''2024-03-01'',
                      scenarioMove ''rm-a'' OUT 3 ''2024-03-02''] ''rm-a'' False = 7
   \<and> lowStockRM [scenarioMove ''rm-a'' IN 10 ''2024-03-01'',
                  scenarioMove ''rm-a'' OUT 3 ''2024-03-02''] [scenarioItem] = []
   \<and> computeBalance [scenarioMove ''rm-a'' IN 10 ''2024-03-01'',
                      scenarioMove ''rm-a'' OUT 7 ''2024-03-02''] ''rm-a'' False = 3
   \<and> lowStockRM [scenarioMove ''rm-a'' IN 10 ''2024-03-01'',
                  scenarioMove ''rm-a'' OUT 7 ''2024-03-02''] [scenarioItem] = [scenarioItem]
   \<and> computeBalance [scenarioMove ''rm-a'' IN 10 ''2024-03-01'',
                      scenarioMove ''rm-a'' OUT 5 ''2024-03-02''] ''rm-a'' False = 5
   \<and> lowStockRM [scenarioMove ''rm-a'' IN 10 ''2024-03-01'',
                  scenarioMove ''rm-a'' OUT 5 ''2024-03-02''] [scenarioItem] = [scenarioItem]"
proof -
  have bal: "computeBalance [scenarioMove ''rm-a'' IN 10 ''2024-03-01'',
                             scenarioMove ''rm-a'' OUT q ''2024-03-02''] ''rm-a'' False = 10 - q"
    for q
    by (simp add: computeBalance_sum classKey_def signedQty_def effQty_def scenarioMove_def)
  have rm: "p \<in> set (lowStockRM ms rmProducts)
      \<longleftrightarrow> p \<in> set rmProducts \<and> computeBalance ms (rm_id p) False \<le> rm_threshold p"
    by (simp add: lowStockRM_def)
  have fg: "f \<in> set (lowStockFG ms fgProducts)
      \<longleftrightarrow> f \<in> set fgProducts \<and> computeBalance ms (fg_id f) True \<le> fg_threshold f"
    by (simp add: lowStockFG_def)
  have item: "rm_id scenarioItem = ''rm-a''" "rm_threshold scenarioItem = 5"
    by (simp_all add: scenarioItem_def)
  have a: "lowStockRM [scenarioMove ''rm-a'' IN 10 ''2024-03-01'',
                  scenarioMove ''rm-a'' OUT 3 ''2024-03-02''] [scenarioItem] = []"
    unfolding lowStockRM_def by (simp add: item bal)
  have b: "lowStockRM [scenarioMove ''rm-a'' IN 10 ''2024-03-01'',
                  scenarioMove ''rm-a'' OUT 7 ''2024-03-02''] [scenarioItem] = [scenarioItem]"
    unfolding lowStockRM_def by (simp add: item bal)
  have c: "lowStockRM [scenarioMove ''rm-a'' IN 10 ''2024-03-01'',
                  scenarioMove ''rm-a'' OUT 5 ''2024-03-02''] [scenarioItem] = [scenarioItem]"
    unfolding lowStockRM_def by (simp add: item bal)
  show ?thesis
    using rm fg a b c bal [of 3] bal [of 7] bal [of 5] by simp
qed

lemma daysAgoISO_fixed_offset:
  assumes "cal_localOfUtc cal = (\<lambda>u. u + c)" and "cal_utcOfLocal cal = (\<lambda>l. l - c)"
  shows "daysAgoISO cal k = cal_isoDate cal (cal_now cal div 1440 - int k)"
proof -
  have "(cal_now cal + c - int k * 1440 - c) div 1440 = cal_now cal div 1440 - int k"
    by (simp add: algebra_simps)
  then show ?thesis
    by (simp add: daysAgoISO_def Let_def assms)
qed

lemma scenarioBerlin_days:
  "map (daysAgoISO scenarioBerlin) [13, 12, 11, 10, 9, 8, 7, 6, 5, 4, 3, 2, 1, 0]
   = [''2024-03-23'', ''2024-03-24'', ''2024-03-25'', ''2024-03-26'', ''2024-03-27'',
      ''2024-03-28'', ''2024-03-29'', ''2024-03-30'', ''2024-03-31'', ''2024-03-31'',
      ''2024-04-01'', ''2024-04-02'', ''2024-04-03'', ''2024-04-04'']"
  by (simp add: daysAgoISO_def Let_def scenarioBerlin_def scenarioIsoDate_def twoDigits_def)

lemma upt_0_14: "[0..<14] = [0, 1, 2, 3, 4, 5, 6, 7, 8, 9, 10, 11, 12, 13 :: nat]"
  by code_simp

lemma last14Days_unfold:
  "last14Days d = map d [13, 12, 11, 10, 9, 8, 7, 6, 5, 4, 3, 2, 1, 0]"
  by (simp add: last14Days_def upt_0_14)

text \<open>
  C6. In a browser in Europe/Berlin at 01:30 on 2024-04-05 the fourteen dates of the
  series are 2024-03-23 to 2024-04-04 with 2024-03-31 twice: 01:30 local time is 23:30
  of the day before in UTC while the zone is at UTC+2, and 00:30 of the same day while it
  is at UTC+1. The series has two entries for 2024-03-31 and none for the current date,
  2024-04-05, with which a movement stocked in at that moment is dated; that movement
  is in no entry of the series.
\<close>

theorem chartData_berlin_dst:
  "localDateISO scenarioBerlin = ''2024-04-05''
   \<and> last14Days (daysAgoISO scenarioBerlin)
       = [''2024-03-23'', ''2024-03-24'', ''2024-03-25'', ''2024-03-26'', ''2024-03-27'',
          ''2024-03-28'', ''2024-03-29'', ''2024-03-30'', ''2024-03-31'', ''2024-03-31'',
          ''2024-04-01'', ''2024-04-02'', ''2024-04-03'', ''2024-04-04'']
   \<and> map cp_date (renderDashboard_chartData scenarioBerlin id
          [scenarioMove ''rm-a'' IN 10 (localDateISO scenarioBerlin)])
       = [''2024-03-23'', ''2024-03-24'', ''2024-03-25'', ''2024-03-26'', ''2024-03-27'',
          ''2024-03-28'', ''2024-03-29'', ''2024-03-30'', ''2024-03-31'', ''2024-03-31'',
          ''2024-04-01'', ''2024-04-02'', ''2024-04-03'', ''2024-04-04'']
   \<and> map cp_in (renderDashboard_chartData scenarioBerlin id
          [scenarioMove ''rm-a'' IN 10 (localDateISO scenarioBerlin)])
       = [0, 0, 0, 0, 0, 0, 0, 0, 0, 0, 0, 0, 0, 0]"
proof -
  have today: "localDateISO scenarioBerlin = ''2024-04-05''"
    by (simp add: localDateISO_def scenarioBerlin_def scenarioIsoDate_def twoDigits_def)
  have days: "last14Days (daysAgoISO scenarioBerlin)
       = [''2024-03-23'', ''2024-03-24'', ''2024-03-25'', ''2024-03-26'', ''2024-03-27'',
          ''2024-03-28'', ''2024-03-29'', ''2024-03-30'', ''2024-03-31'', ''2024-03-31'',
          ''2024-04-01'', ''2024-04-02'', ''2024-04-03'', ''2024-04-04'']"
    by (simp only: last14Days_unfold scenarioBerlin_days)
  have labels: "map cp_date (renderDashboard_chartData scenarioBerlin id
          [scenarioMove ''rm-a'' IN 10 (localDateISO scenarioBerlin)])
       = last14Days (daysAgoISO scenarioBerlin)"
    by (simp add: renderDashboard_chartData_def chartData_def Let_def comp_def)
  have ins: "map cp_in (renderDashboard_chartData scenarioBerlin id
          [scenarioMove ''rm-a'' IN 10 (localDateISO scenarioBerlin)])
       = [0, 0, 0, 0, 0, 0, 0, 0, 0, 0, 0, 0, 0, 0]"
    unfolding renderDashboard_chartData_def chartData_def days today
    by (simp add: scenarioMove_def)
  show ?thesis
    by (intro conjI today days labels [unfolded days] ins)
qed

text \<open>
  C10. The reducers read a movement's quantity through the alias fallback: the
  \<^verbatim>\<open>quantity\<close> field when it is present and not 0, otherwise the \<^verbatim>\<open>qty\<close> field when it
  is present and not 0, otherwise 0. So a movement with \<^verbatim>\<open>quantity\<close> 0 or absent and
  \<^verbatim>\<open>qty\<close> set counts with \<^verbatim>\<open>qty\<close>, a movement without both fields counts 0, and a
  movement without its class key adds 0 to the balance of every item. The balance and
  the 14-day series are defined on every movement list, with that quantity.
\<close>

theorem effQty_alias_fallback:
  "effQty m =
     (case m_quantity m of
        Some q \<Rightarrow> if q \<noteq> 0 then q else (case m_qty m of Some r \<Rightarrow> r | None \<Rightarrow> 0)
      | None \<Rightarrow> (case m_qty m of Some r \<Rightarrow> r | None \<Rightarrow> 0))
   \<and> effQty (m\<lparr> m_quantity := Some 0, m_qty := Some r \<rparr>) = r
   \<and> effQty (m\<lparr> m_quantity := None, m_qty := Some r \<rparr>) = r
   \<and> effQty (m\<lparr> m_quantity := None, m_qty := None \<rparr>) = 0
   \<and> computeBalance (ms @ [m]) i isFG
       = computeBalance ms i isFG
         + (if classKey isFG m = Some i
            then (case m_type m of IN \<Rightarrow> effQty m | OUT \<Rightarrow> - effQty m) else 0)
   \<and> computeBalance (ms @ [m\<lparr> m_productId := None \<rparr>]) i False = computeBalance ms i False
   \<and> computeBalance (ms @ [m\<lparr> m_fgId := None \<rparr>]) i True = computeBalance ms i True
   \<and> map cp_in (chartData d l ms)
       = map (\<lambda>k. sum_list (map effQty
                 (filter (\<lambda>m. m_date m = d (13 - k) \<and> m_type m = IN) ms))) [0..<14]
   \<and> map cp_out (chartData d l ms)
       = map (\<lambda>k. sum_list (map effQty
                 (filter (\<lambda>m. m_date m = d (13 - k) \<and> m_type m = OUT) ms))) [0..<14]"
proof -
  have q: "effQty (m\<lparr> m_quantity := Some 0, m_qty := Some r \<rparr>) = r"
    "effQty (m\<lparr> m_quantity := None, m_qty := Some r \<rparr>) = r"
    "effQty (m\<lparr> m_quantity := None, m_qty := None \<rparr>) = 0"
    by (simp_all add: effQty_def)
  have k: "computeBalance (ms @ [m\<lparr> m_productId := None \<rparr>]) i False = computeBalance ms i False"
    "computeBalance (ms @ [m\<lparr> m_fgId := None \<rparr>]) i True = computeBalance ms i True"
    by (simp_all add: computeBalance_snoc classKey_def)
  have c: "map cp_in (chartData d l ms)
       = map (\<lambda>k. sum_list (map effQty
                 (filter (\<lambda>m. m_date m = d (13 - k) \<and> m_type m = IN) ms))) [0..<14]"
    "map cp_out (chartData d l ms)
       = map (\<lambda>k. sum_list (map effQty
                 (filter (\<lambda>m. m_date m = d (13 - k) \<and> m_type m = OUT) ms))) [0..<14]"
    by (simp_all add: chartData_eq comp_def del: upt.simps)
  show ?thesis
    using effQty_cases [of m] q k c computeBalance_snoc [of ms m i isFG] by blast
qed

section \<open>Properties of the store and of the line-by-line writes\<close>

lemma dbSet_fresh: "k \<notin> fst ` set kvs \<Longrightarrow> dbSet k v kvs = kvs @ [(k, v)]"
  by (induction kvs) auto

lemma map_of_dbSet: "map_of (dbSet k v kvs) = (map_of kvs)(k \<mapsto> v)"
  by (induction kvs) (auto simp: fun_eq_iff)

lemma dbSet_used: "k \<in> fst ` set kvs \<Longrightarrow> map fst (dbSet k v kvs) = map fst kvs"
proof (induction kvs)
  case Nil
  then show ?case by simp
next
  case (Cons a kvs)
  obtain k' v' where a: "a = (k', v')" by (cases a)
  show ?case
  proof (cases "k' = k")
    case True
    then show ?thesis by (simp add: a)
  next
    case False
    with Cons.prems a have "k \<in> fst ` set kvs" by auto
    from Cons.IH [OF this] False show ?thesis by (simp add: a)
  qed
qed

lemma logAction_eq:
  "logAction env action entityId details w =
     w\<lparr> db := (db w)\<lparr> auditLogs :=
            dbSet (genIds env (idCtr w))
              \<lparr> al_id = genIds env (idCtr w), al_at = Some (clockISO env (tick w)),
                al_timestamp = None, al_by = Some (actor env), al_username = None,
                al_action = action, al_entityId = Some entityId, al_targetId = None,
                al_details = details \<rparr>
              (auditLogs (db w)) \<rparr>,
        idCtr := Suc (idCtr w), tick := Suc (tick w) \<rparr>"
  by (simp add: logAction_def genId_def nowISO_def Let_def)

lemma toast_db [simp]: "db (toast n w) = db w"
  by (simp add: toast_def)

lemma freshIds_later:
  assumes "inj_on (genIds env) {c..}" and "c \<le> i" and "i < j"
  shows "genIds env j \<noteq> genIds env i"
  using inj_onD [OF assms(1), of j i] assms(2,3) by auto

lemma renderGRN_addMovements_eq:
  assumes "inj_on (genIds env) {idCtr w..}"
    and "\<forall>j\<ge>idCtr w. genIds env j \<notin> fst ` set (stockMovements (db w))"
  shows "renderGRN_addMovements env b n d items w =
     w\<lparr> db := (db w)\<lparr> stockMovements :=
            stockMovements (db w) @ renderGRN_newMovements env b n d items (idCtr w) (tick w) \<rparr>,
        idCtr := idCtr w + length items, tick := tick w + length items \<rparr>"
  using assms
proof (induction items arbitrary: w)
  case Nil
  then show ?case by simp
next
  case (Cons item items)
  let ?k = "genIds env (idCtr w)"
  let ?mv = "\<lparr> m_id = ?k, m_productId = Some (li_productId item), m_fgId = None,
        m_type = IN, m_quantity = Some (li_qty item), m_qty = None, m_date = d,
        m_remark = ''GRN: '' @ n, m_billId = Some b, m_productionId = None,
        m_createdAt = clockISO env (tick w), m_createdBy = actor env,
        m_batch = None, m_expiry = None \<rparr>"
  let ?w3 = "w\<lparr> idCtr := Suc (idCtr w), tick := Suc (tick w),
        db := (db w)\<lparr> stockMovements := stockMovements (db w) @ [(?k, ?mv)] \<rparr> \<rparr>"
  have fresh: "?k \<notin> fst ` set (stockMovements (db w))"
    using Cons.prems(2) by simp
  have inj': "inj_on (genIds env) {idCtr ?w3..}"
    using Cons.prems(1) by (auto intro: inj_on_subset)
  have "genIds env j \<noteq> ?k" if "Suc (idCtr w) \<le> j" for j
    using that freshIds_later [OF Cons.prems(1), of "idCtr w" j] by simp
  then have notin': "\<forall>j\<ge>idCtr ?w3. genIds env j \<notin> fst ` set (stockMovements (db ?w3))"
    using Cons.prems(2) by auto
  have unfold: "renderGRN_addMovements env b n d (item # items) w
        = renderGRN_addMovements env b n d items ?w3"
    by (simp add: genId_def nowISO_def setStockMovement_def Let_def dbSet_fresh [OF fresh])
  show ?case
    unfolding unfold Cons.IH [OF inj' notin'] by (rule World.equality) simp_all
qed

lemma renderDN_addMovements_eq:
  assumes "inj_on (genIds env) {idCtr w..}"
    and "\<forall>j\<ge>idCtr w. genIds env j \<notin> fst ` set (stockMovements (db w))"
  shows "renderDN_addMovements env n d items w =
     w\<lparr> db := (db w)\<lparr> stockMovements :=
            stockMovements (db w) @ renderDN_newMovements env n d items (idCtr w) (tick w) \<rparr>,
        idCtr := idCtr w + length items, tick := tick w + length items \<rparr>"
  using assms
proof (induction items arbitrary: w)
  case Nil
  then show ?case by simp
next
  case (Cons item items)
  let ?k = "genIds env (idCtr w)"
  let ?mv = "\<lparr> m_id = ?k, m_productId = None, m_fgId = Some (li_productId item),
        m_type = OUT, m_quantity = Some (li_qty item), m_qty = None, m_date = d,
        m_remark = ''DN: '' @ n, m_billId = None, m_productionId = None,
        m_createdAt = clockISO env (tick w), m_createdBy = actor env,
        m_batch = None, m_expiry = None \<rparr>"
  let ?w3 = "w\<lparr> idCtr := Suc (idCtr w), tick := Suc (tick w),
        db := (db w)\<lparr> stockMovements := stockMovements (db w) @ [(?k, ?mv)] \<rparr> \<rparr>"
  have fresh: "?k \<notin> fst ` set (stockMovements (db w))"
    using Cons.prems(2) by simp
  have inj': "inj_on (genIds env) {idCtr ?w3..}"
    using Cons.prems(1) by (auto intro: inj_on_subset)
  have "genIds env j \<noteq> ?k" if "Suc (idCtr w) \<le> j" for j
    using that freshIds_later [OF Cons.prems(1), of "idCtr w" j] by simp
  then have notin': "\<forall>j\<ge>idCtr ?w3. genIds env j \<notin> fst ` set (stockMovements (db ?w3))"
    using Cons.prems(2) by auto
  have unfold: "renderDN_addMovements env n d (item # items) w
        = renderDN_addMovements env n d items ?w3"
    by (simp add: genId_def nowISO_def setStockMovement_def Let_def dbSet_fresh [OF fresh])
  show ?case
    unfolding unfold Cons.IH [OF inj' notin'] by (rule World.equality) simp_all
qed

lemma renderGRN_newMovements_length [simp]:
  "length (renderGRN_newMovements env b n d items c t) = length items"
  by (induction items arbitrary: c t) auto


lemma renderGRN_newMovements_nth:
  "j < length items \<Longrightarrow>
   renderGRN_newMovements env b n d items c t ! j =
     (genIds env (c + j),
      \<lparr> m_id = genIds env (c + j), m_productId = Some (li_productId (items ! j)), m_fgId = None,
        m_type = IN, m_quantity = Some (li_qty (items ! j)), m_qty = None, m_date = d,
        m_remark = ''GRN: '' @ n, m_billId = Some b, m_productionId = None,
        m_createdAt = clockISO env (t + j), m_createdBy = actor env,
        m_batch = None, m_expiry = None \<rparr>)"
proof (induction items arbitrary: c t j)
  case Nil
  then show ?case by simp
next
  case (Cons item items)
  then show ?case by (cases j) auto
qed


lemma renderGRN_newMovements_keys:
  "map fst (renderGRN_newMovements env b n d items c t) = map (genIds env) [c..<c + length items]"
  by (induction items arbitrary: c t) (auto simp: upt_rec)

lemma renderDN_newMovements_keys:
  "map fst (renderDN_newMovements env n d items c t) = map (genIds env) [c..<c + length items]"
  by (induction items arbitrary: c t) (auto simp: upt_rec)

lemma freshIds_D:
  assumes "freshIds env w"
  shows "inj_on (genIds env) {idCtr w..}"
    and "\<And>j. idCtr w \<le> j \<Longrightarrow> genIds env j \<notin> fst ` set (stockMovements (db w))"
    and "\<And>j. idCtr w \<le> j \<Longrightarrow> genIds env j \<notin> fst ` set (bills (db w))"
    and "\<And>j. idCtr w \<le> j \<Longrightarrow> genIds env j \<notin> fst ` set (deliveryNotes (db w))"
    and "\<And>j. idCtr w \<le> j \<Longrightarrow> genIds env j \<notin> fst ` set (auditLogs (db w))"
    and "\<And>j. idCtr w \<le> j \<Longrightarrow> genIds env j \<notin> fst ` set (productions (db w))"
  using assms unfolding freshIds_def storeKeys_def by blast+

lemma list2_nth: "length xs = Suc (Suc 0) \<Longrightarrow> xs = [xs ! 0, xs ! Suc 0]"
  by (cases xs; cases "tl xs") auto

lemma scenarioIds_inj: "inj_on scenarioIds A"
proof (rule inj_onI)
  fix x y assume "scenarioIds x = scenarioIds y"
  then have "length (scenarioIds x) = length (scenarioIds y)" by simp
  then show "x = y" by (simp add: scenarioIds_def)
qed

lemma scenario_freshIds: "freshIds scenarioEnv scenarioWorld"
  unfolding freshIds_def
  by (simp add: scenarioEnv_def scenarioWorld_def scenarioStore_def storeKeys_def
      scenarioIds_inj scenarioIds_def)

lemma scenario_balance: "computeBalance (movements scenarioEnv) ''fg-a'' True = 15"
  by (simp add: scenarioEnv_def snapshotMovements_def scenarioStore_def scenarioFGIn15_def
      computeBalance_sum classKey_def signedQty_def effQty_def)

section \<open>The audit logger\<close>

text \<open>
  C7, as amended. Every call to \<open>logAction\<close> writes exactly one record to the audit-log
  collection, under the generated identifier, and changes nothing else in the store and
  no notification. The record carries the generated identifier (\<^verbatim>\<open>id\<close>), the current
  timestamp (\<^verbatim>\<open>at\<close>), the acting user (\<^verbatim>\<open>by\<close>: the user name of the logged-in user, or
  \<^verbatim>\<open>unknown\<close> when there is none or it is empty), the action tag (\<^verbatim>\<open>action\<close>), the target
  entity (\<^verbatim>\<open>entityId\<close>) and the details payload (\<^verbatim>\<open>details\<close>); the alternative fields
  \<^verbatim>\<open>timestamp\<close>, \<^verbatim>\<open>username\<close> and \<^verbatim>\<open>targetId\<close> stay absent. The write appends the record when
  the generated identifier is not yet a key of the collection; when it is, the record
  replaces the one stored under that key and the collection keeps its keys. Every other
  key keeps its record.
\<close>

theorem logAction_writes_one_record:
  "auditLogs (db (logAction env action entityId details w))
     = dbSet (genIds env (idCtr w))
         \<lparr> al_id = genIds env (idCtr w), al_at = Some (clockISO env (tick w)),
           al_timestamp = None, al_by = Some (actor env), al_username = None,
           al_action = action, al_entityId = Some entityId, al_targetId = None,
           al_details = details \<rparr>
         (auditLogs (db w))
   \<and> (genIds env (idCtr w) \<notin> fst ` set (auditLogs (db w))
        \<longrightarrow> auditLogs (db (logAction env action entityId details w))
            = auditLogs (db w)
              @ [(genIds env (idCtr w),
                  \<lparr> al_id = genIds env (idCtr w), al_at = Some (clockISO env (tick w)),
                    al_timestamp = None, al_by = Some (actor env), al_username = None,
                    al_action = action, al_entityId = Some entityId, al_targetId = None,
                    al_details = details \<rparr>)])
   \<and> (genIds env (idCtr w) \<in> fst ` set (auditLogs (db w))
        \<longrightarrow> map fst (auditLogs (db (logAction env action entityId details w)))
            = map fst (auditLogs (db w)))
   \<and> map_of (auditLogs (db (logAction env action entityId details w)))
       = (map_of (auditLogs (db w)))
           (genIds env (idCtr w) \<mapsto>
              \<lparr> al_id = genIds env (idCtr w), al_at = Some (clockISO env (tick w)),
                al_timestamp = None, al_by = Some (actor env), al_username = None,
                al_action = action, al_entityId = Some entityId, al_targetId = None,
                al_details = details \<rparr>)
   \<and> db (logAction env action entityId details w)
       = (db w)\<lparr> auditLogs := auditLogs (db (logAction env action entityId details w)) \<rparr>
   \<and> notices (logAction env action entityId details w) = notices w
   \<and> actor env
       = (case currentUser env of
            None \<Rightarrow> ''unknown''
          | Some u \<Rightarrow> if u_username u = [] then ''unknown'' else u_username u)"
  by (simp add: logAction_eq dbSet_fresh dbSet_used map_of_dbSet actor_def)

theorem logAction_writes_one_record_witness:
  "genIds scenarioEnv (idCtr scenarioWorld) \<notin> fst ` set (auditLogs (db scenarioWorld))
   \<and> auditLogs (db (logAction scenarioEnv ''RM_STOCK_IN'' ''rm-a'' (D_QtyRemark 4 ''note'')
                     scenarioWorld))
       = [(''id_a'',
           \<lparr> al_id = ''id_a'', al_at = Some ''2024-03-14T10:00:00.000Z'',
             al_timestamp = None, al_by = Some ''admin'', al_username = None,
             al_action = ''RM_STOCK_IN'', al_entityId = Some ''rm-a'', al_targetId = None,
             al_details = D_QtyRemark 4 ''note'' \<rparr>)]
   \<and> genIds scenarioEnv (idCtr scenarioUsedIdWorld)
       \<in> fst ` set (auditLogs (db scenarioUsedIdWorld))
   \<and> map fst (auditLogs (db (logAction scenarioEnv ''RM_STOCK_IN'' ''rm-a''
                     (D_QtyRemark 4 ''note'') scenarioUsedIdWorld)))
       = [''id_a'']"
proof -
  have h: "genIds scenarioEnv (idCtr scenarioWorld) \<notin> fst ` set (auditLogs (db scenarioWorld))"
    by (simp add: scenarioWorld_def scenarioStore_def)
  have u: "genIds scenarioEnv (idCtr scenarioUsedIdWorld)
       \<in> fst ` set (auditLogs (db scenarioUsedIdWorld))"
    by (simp add: scenarioUsedIdWorld_def scenarioWorld_def scenarioStore_def scenarioEnv_def
        scenarioIds_def)
  note fresh = logAction_writes_one_record [of scenarioEnv "''RM_STOCK_IN''" "''rm-a''"
      "D_QtyRemark 4 ''note''" scenarioWorld]
  note used = logAction_writes_one_record [of scenarioEnv "''RM_STOCK_IN''" "''rm-a''"
      "D_QtyRemark 4 ''note''" scenarioUsedIdWorld]
  from fresh h have "auditLogs (db (logAction scenarioEnv ''RM_STOCK_IN'' ''rm-a''
      (D_QtyRemark 4 ''note'') scenarioWorld))
       = auditLogs (db scenarioWorld)
         @ [(genIds scenarioEnv (idCtr scenarioWorld),
             \<lparr> al_id = genIds scenarioEnv (idCtr scenarioWorld),
               al_at = Some (clockISO scenarioEnv (tick scenarioWorld)),
               al_timestamp = None, al_by = Some (actor scenarioEnv), al_username = None,
               al_action = ''RM_STOCK_IN'', al_entityId = Some ''rm-a'', al_targetId = None,
               al_details = D_QtyRemark 4 ''note'' \<rparr>)]"
    by blast
  then have a: "auditLogs (db (logAction scenarioEnv ''RM_STOCK_IN'' ''rm-a''
      (D_QtyRemark 4 ''note'') scenarioWorld))
       = [(''id_a'',
           \<lparr> al_id = ''id_a'', al_at = Some ''2024-03-14T10:00:00.000Z'',
             al_timestamp = None, al_by = Some ''admin'', al_username = None,
             al_action = ''RM_STOCK_IN'', al_entityId = Some ''rm-a'', al_targetId = None,
             al_details = D_QtyRemark 4 ''note'' \<rparr>)]"
    by (simp add: scenarioWorld_def scenarioStore_def scenarioEnv_def scenarioIds_def
        actor_def scenarioAdmin_def)
  from used u have "map fst (auditLogs (db (logAction scenarioEnv ''RM_STOCK_IN'' ''rm-a''
      (D_QtyRemark 4 ''note'') scenarioUsedIdWorld)))
       = map fst (auditLogs (db scenarioUsedIdWorld))"
    by blast
  then have b: "map fst (auditLogs (db (logAction scenarioEnv ''RM_STOCK_IN'' ''rm-a''
      (D_QtyRemark 4 ''note'') scenarioUsedIdWorld))) = [''id_a'']"
    by (simp add: scenarioUsedIdWorld_def scenarioWorld_def scenarioStore_def)
  show ?thesis
    by (intro conjI h a u b)
qed

text \<open>
  A call whose generated identifier is already the key of an audit record: the record
  of the earlier action is replaced, and the collection holds one record before and
  after the call.
\<close>

theorem logAction_replaces_counterexample:
  "auditLogs (db scenarioUsedIdWorld) = [(''id_a'', scenarioLog)]
   \<and> al_action scenarioLog = ''FG_STOCK_IN''
   \<and> genIds scenarioEnv (idCtr scenarioUsedIdWorld) = ''id_a''
   \<and> length (auditLogs (db (logAction scenarioEnv ''RM_STOCK_IN'' ''rm-a''
               (D_QtyRemark 4 ''note'') scenarioUsedIdWorld))) = 1
   \<and> map (al_action \<circ> snd) (auditLogs (db (logAction scenarioEnv ''RM_STOCK_IN'' ''rm-a''
               (D_QtyRemark 4 ''note'') scenarioUsedIdWorld))) = [''RM_STOCK_IN'']"
  by (simp add: logAction_eq scenarioUsedIdWorld_def scenarioWorld_def scenarioStore_def
      scenarioEnv_def scenarioIds_def scenarioLog_def)

section \<open>Goods-received notes\<close>

lemma renderGRN_addMovements_writes:
  "map_of (stockMovements (db (renderGRN_addMovements env b n d items w)))
     = map_of (stockMovements (db w))
       ++ map_of (rev (renderGRN_newMovements env b n d items (idCtr w) (tick w)))
   \<and> bills (db (renderGRN_addMovements env b n d items w)) = bills (db w)"
proof (induction items arbitrary: w)
  case Nil
  then show ?case by simp
next
  case (Cons item items)
  have "map_of (stockMovements (db (renderGRN_addMovements env b n d (item # items) w)))
      = ((map_of (stockMovements (db w)))(genIds env (idCtr w) \<mapsto>
           \<lparr> m_id = genIds env (idCtr w), m_productId = Some (li_productId item),
             m_fgId = None, m_type = IN, m_quantity = Some (li_qty item), m_qty = None,
             m_date = d, m_remark = ''GRN: '' @ n, m_billId = Some b,
             m_productionId = None, m_createdAt = clockISO env (tick w),
             m_createdBy = actor env, m_batch = None, m_expiry = None \<rparr>))
        ++ map_of (rev (renderGRN_newMovements env b n d items (Suc (idCtr w)) (Suc (tick w))))"
    by (simp add: genId_def nowISO_def setStockMovement_def Let_def Cons.IH map_of_dbSet)
       (simp only: fun_upd_def)
  moreover have "bills (db (renderGRN_addMovements env b n d (item # items) w)) = bills (db w)"
    by (simp add: genId_def nowISO_def setStockMovement_def Let_def Cons.IH)
  ultimately show ?case
    by simp
qed

lemma renderGRN_handleSubmit_run:
  assumes "items \<noteq> []"
  shows "renderGRN_handleSubmit env (Some supplier) billNo date items w
        = toast (ToastSuccess ''GRN saved and stock updated'')
            (logAction env ''GRN_ADD'' (genIds env (idCtr w))
               (D_Bill \<lparr> b_id = genIds env (idCtr w), b_billNo = billNo, b_date = date,
                   b_supplierId = s_id supplier, b_supplierName = s_name supplier,
                   b_items = items, b_createdAt = clockISO env (tick w),
                   b_createdBy = actor env, b_updatedAt = None, b_updatedBy = None \<rparr>)
               (renderGRN_addMovements env (genIds env (idCtr w)) billNo date items
                  (w\<lparr> idCtr := Suc (idCtr w), tick := Suc (tick w),
                      db := (db w)\<lparr> bills := dbSet (genIds env (idCtr w))
                        \<lparr> b_id = genIds env (idCtr w), b_billNo = billNo, b_date = date,
                          b_supplierId = s_id supplier, b_supplierName = s_name supplier,
                          b_items = items, b_createdAt = clockISO env (tick w),
                          b_createdBy = actor env, b_updatedAt = None, b_updatedBy = None \<rparr>
                        (bills (db w)) \<rparr> \<rparr>)))"
  using assms
  by (simp add: renderGRN_handleSubmit_def genId_def nowISO_def Let_def)

text \<open>
  C4, as amended. Submitting a GRN with no supplier selected or with no line writes
  nothing. Submitting a GRN with a supplier selected and \<open>n \<ge> 1\<close> lines performs exactly
  one Bill write, under the generated bill identifier, and exactly \<open>n\<close> Movement writes,
  in the order of the lines: the \<open>j\<close>-th under its own generated identifier, with
  direction IN, with the \<open>j\<close>-th line's item in \<^verbatim>\<open>productId\<close> (and no \<^verbatim>\<open>fgId\<close>), with the
  \<open>j\<close>-th line's quantity, and with the bill identifier in \<^verbatim>\<open>billId\<close>; a later write under
  an identifier that is already a key replaces the record stored there. When the
  generated identifiers are pairwise distinct and not in use, the writes add exactly
  one Bill record and exactly \<open>n\<close> Movement records after the existing ones.
\<close>

theorem renderGRN_writes_bill_and_movements:
  "renderGRN_handleSubmit env None billNo date items w = w
   \<and> renderGRN_handleSubmit env (Some supplier) billNo date [] w = w
   \<and> (items \<noteq> [] \<longrightarrow>
        bills (db (renderGRN_handleSubmit env (Some supplier) billNo date items w))
          = dbSet (genIds env (idCtr w))
              \<lparr> b_id = genIds env (idCtr w), b_billNo = billNo, b_date = date,
                b_supplierId = s_id supplier, b_supplierName = s_name supplier,
                b_items = items, b_createdAt = clockISO env (tick w),
                b_createdBy = actor env, b_updatedAt = None, b_updatedBy = None \<rparr>
              (bills (db w))
        \<and> map_of (stockMovements
                    (db (renderGRN_handleSubmit env (Some supplier) billNo date items w)))
          = map_of (stockMovements (db w))
            ++ map_of (rev (renderGRN_newMovements env (genIds env (idCtr w)) billNo date items
                              (Suc (idCtr w)) (Suc (tick w))))
        \<and> length (renderGRN_newMovements env (genIds env (idCtr w)) billNo date items
                    (Suc (idCtr w)) (Suc (tick w))) = length items
        \<and> (\<forall>j<length items.
              renderGRN_newMovements env (genIds env (idCtr w)) billNo date items
                (Suc (idCtr w)) (Suc (tick w)) ! j
              = (genIds env (Suc (idCtr w) + j),
                 \<lparr> m_id = genIds env (Suc (idCtr w) + j),
                   m_productId = Some (li_productId (items ! j)), m_fgId = None,
                   m_type = IN, m_quantity = Some (li_qty (items ! j)), m_qty = None,
                   m_date = date, m_remark = ''GRN: '' @ billNo,
                   m_billId = Some (genIds env (idCtr w)), m_productionId = None,
                   m_createdAt = clockISO env (Suc (tick w) + j), m_createdBy = actor env,
                   m_batch = None, m_expiry = None \<rparr>))
        \<and> (freshIds env w \<longrightarrow>
              bills (db (renderGRN_handleSubmit env (Some supplier) billNo date items w))
                = bills (db w)
                  @ [(genIds env (idCtr w),
                      \<lparr> b_id = genIds env (idCtr w), b_billNo = billNo, b_date = date,
                        b_supplierId = s_id supplier, b_supplierName = s_name supplier,
                        b_items = items, b_createdAt = clockISO env (tick w),
                        b_createdBy = actor env, b_updatedAt = None, b_updatedBy = None \<rparr>)]
              \<and> stockMovements
                   (db (renderGRN_handleSubmit env (Some supplier) billNo date items w))
                = stockMovements (db w)
                  @ renderGRN_newMovements env (genIds env (idCtr w)) billNo date items
                      (Suc (idCtr w)) (Suc (tick w))
              \<and> length (stockMovements
                   (db (renderGRN_handleSubmit env (Some supplier) billNo date items w)))
                = length (stockMovements (db w)) + length items))"
  (is "?G1 \<and> ?G2 \<and> (_ \<longrightarrow> ?P1 \<and> ?P2 \<and> ?P3 \<and> ?P4 \<and> (_ \<longrightarrow> ?Q1 \<and> ?Q2 \<and> ?Q3))")
proof (intro conjI impI)
  show ?G1 by (simp add: renderGRN_handleSubmit_def)
  show ?G2 by (simp add: renderGRN_handleSubmit_def)
  show ?P3 by simp
  show ?P4 by (simp add: renderGRN_newMovements_nth)
  assume ne: "items \<noteq> []"
  note run = renderGRN_handleSubmit_run [OF ne, of env supplier billNo date w]
  show ?P1
    unfolding run by (simp add: toast_def logAction_eq renderGRN_addMovements_writes)
  show ?P2
    unfolding run by (simp add: toast_def logAction_eq renderGRN_addMovements_writes)
  assume fr: "freshIds env w"
  note f = freshIds_D [OF fr]
  let ?c = "idCtr w"
  let ?bill = "\<lparr> b_id = genIds env ?c, b_billNo = billNo, b_date = date,
                   b_supplierId = s_id supplier, b_supplierName = s_name supplier,
                   b_items = items, b_createdAt = clockISO env (tick w),
                   b_createdBy = actor env, b_updatedAt = None, b_updatedBy = None \<rparr>"
  let ?w3 = "w\<lparr> idCtr := Suc ?c, tick := Suc (tick w),
                 db := (db w)\<lparr> bills := dbSet (genIds env ?c) ?bill (bills (db w)) \<rparr> \<rparr>"
  have "{idCtr ?w3..} \<subseteq> {idCtr w..}"
    by auto
  then have inj3: "inj_on (genIds env) {idCtr ?w3..}"
    by (rule inj_on_subset [OF f(1)])
  have notin3: "\<forall>j\<ge>idCtr ?w3. genIds env j \<notin> fst ` set (stockMovements (db ?w3))"
    using f(2) by simp
  show ?Q1
    unfolding run renderGRN_addMovements_eq [OF inj3 notin3]
    by (simp add: toast_def logAction_eq dbSet_fresh [OF f(3) [of ?c]])
  show q2: ?Q2
    unfolding run renderGRN_addMovements_eq [OF inj3 notin3]
    by (simp add: toast_def logAction_eq)
  show ?Q3
    unfolding q2 by simp
qed

theorem renderGRN_writes_bill_and_movements_witness:
  "freshIds scenarioEnv scenarioWorld
   \<and> [scenarioLine ''rm-a'' 4, scenarioLine ''rm-a'' 6] \<noteq> []
   \<and> map fst (bills (db (renderGRN_handleSubmit scenarioEnv (Some scenarioSupplier) ''B-1''
         ''2024-03-14'' [scenarioLine ''rm-a'' 4, scenarioLine ''rm-a'' 6] scenarioWorld)))
       = [''id_a'']
   \<and> map (\<lambda>kv. (fst kv, m_type (snd kv), m_productId (snd kv), m_quantity (snd kv),
                  m_billId (snd kv)))
        (stockMovements (db (renderGRN_handleSubmit scenarioEnv (Some scenarioSupplier) ''B-1''
           ''2024-03-14'' [scenarioLine ''rm-a'' 4, scenarioLine ''rm-a'' 6] scenarioWorld)))
       = [(''mv-1'', IN, None, Some 15, None),
          (''id_aa'', IN, Some ''rm-a'', Some 4, Some ''id_a''),
          (''id_aaa'', IN, Some ''rm-a'', Some 6, Some ''id_a'')]"
proof -
  let ?items = "[scenarioLine ''rm-a'' 4, scenarioLine ''rm-a'' 6]"
  let ?r = "renderGRN_handleSubmit scenarioEnv (Some scenarioSupplier) ''B-1''
         ''2024-03-14'' ?items scenarioWorld"
  have ne: "?items \<noteq> []" by simp
  note inst = renderGRN_writes_bill_and_movements [where env = scenarioEnv
      and supplier = scenarioSupplier and billNo = "''B-1''" and date = "''2024-03-14''"
      and items = ?items and w = scenarioWorld]
  have ids: "genIds scenarioEnv 0 = ''id_a''" "genIds scenarioEnv (Suc 0) = ''id_aa''"
    "genIds scenarioEnv (Suc (Suc 0)) = ''id_aaa''" "idCtr scenarioWorld = 0"
    by (simp_all add: scenarioEnv_def scenarioIds_def scenarioWorld_def)
  have old: "stockMovements (db scenarioWorld) = [(''mv-1'', scenarioFGIn15)]"
    "bills (db scenarioWorld) = []"
    by (simp_all add: scenarioWorld_def scenarioStore_def)
  from inst ne scenario_freshIds
  have b0: "bills (db ?r)
       = bills (db scenarioWorld)
         @ [(genIds scenarioEnv (idCtr scenarioWorld),
             \<lparr> b_id = genIds scenarioEnv (idCtr scenarioWorld), b_billNo = ''B-1'',
               b_date = ''2024-03-14'',
               b_supplierId = s_id scenarioSupplier, b_supplierName = s_name scenarioSupplier,
               b_items = ?items, b_createdAt = clockISO scenarioEnv (tick scenarioWorld),
               b_createdBy = actor scenarioEnv, b_updatedAt = None, b_updatedBy = None \<rparr>)]"
    and m0: "stockMovements (db ?r)
       = stockMovements (db scenarioWorld)
         @ renderGRN_newMovements scenarioEnv (genIds scenarioEnv (idCtr scenarioWorld))
             ''B-1'' ''2024-03-14'' ?items
             (Suc (idCtr scenarioWorld)) (Suc (tick scenarioWorld))"
    by blast+
  have b: "map fst (bills (db ?r)) = [''id_a'']"
    unfolding b0 by (simp add: ids old)
  have m: "map (\<lambda>kv. (fst kv, m_type (snd kv), m_productId (snd kv), m_quantity (snd kv),
                  m_billId (snd kv))) (stockMovements (db ?r))
       = [(''mv-1'', IN, None, Some 15, None),
          (''id_aa'', IN, Some ''rm-a'', Some 4, Some ''id_a''),
          (''id_aaa'', IN, Some ''rm-a'', Some 6, Some ''id_a'')]"
    unfolding m0 by (simp add: ids old scenarioFGIn15_def scenarioLine_def)
  show ?thesis
    by (intro conjI scenario_freshIds ne b m)
qed

text \<open>
  A GRN with a supplier and no line writes no Bill at all. A GRN with two lines whose
  generated identifiers are equal leaves one new Movement, that of the second line.
\<close>

theorem renderGRN_no_line_or_repeated_id_counterexample:
  "bills (db (renderGRN_handleSubmit scenarioEnv (Some scenarioSupplier) ''B-1''
         ''2024-03-14'' [] scenarioWorld)) = []
   \<and> map fst (stockMovements (db scenarioWorld)) = [''mv-1'']
   \<and> map (\<lambda>kv. (fst kv, m_productId (snd kv), m_quantity (snd kv)))
        (stockMovements (db (renderGRN_handleSubmit scenarioRepeatEnv (Some scenarioSupplier)
           ''B-1'' ''2024-03-14'' [scenarioLine ''rm-a'' 4, scenarioLine ''rm-a'' 6]
           scenarioWorld)))
       = [(''mv-1'', None, Some 15), (''id_a'', Some ''rm-a'', Some 6)]"
  by (simp add: renderGRN_handleSubmit_def genId_def nowISO_def Let_def setStockMovement_def
      logAction_eq toast_def scenarioRepeatEnv_def scenarioEnv_def scenarioWorld_def
      scenarioStore_def scenarioLine_def scenarioFGIn15_def)

section \<open>Rejected delivery notes and stock-outs\<close>

lemma renderDN_handleSubmit_reject:
  assumes "\<exists>item\<in>set items. li_qty item > computeBalance (movements env) (li_productId item) True"
  shows "\<exists>x\<in>set items. li_qty x > computeBalance (movements env) (li_productId x) True
           \<and> renderDN_handleSubmit env dnNo date to items w
               = toast (ToastError (''Insufficient stock for item '' @ li_productId x)) w"
proof -
  let ?P = "\<lambda>item. li_qty item > computeBalance (movements env) (li_productId item) True"
  from assms have ne: "items \<noteq> []" by auto
  from assms obtain x where x: "find ?P items = Some x"
    by (cases "find ?P items") (auto simp: find_None_iff)
  then have px: "?P x" and xin: "x \<in> set items"
    by (auto simp: find_Some_iff)
  have "renderDN_handleSubmit env dnNo date to items w
      = toast (ToastError (''Insufficient stock for item '' @ li_productId x)) w"
    using ne x by (simp add: renderDN_handleSubmit_def)
  with px xin show ?thesis by blast
qed

lemma renderDN_handleSubmit_pass:
  assumes "freshIds env w" and "items \<noteq> []"
    and "\<forall>item\<in>set items. li_qty item \<le> computeBalance (movements env) (li_productId item) True"
  shows "renderDN_handleSubmit env dnNo date to items w =
     w\<lparr> db := (db w)
          \<lparr> stockMovements := stockMovements (db w)
               @ renderDN_newMovements env dnNo date items (Suc (idCtr w)) (Suc (tick w)),
            deliveryNotes := deliveryNotes (db w)
               @ [(genIds env (idCtr w),
                   \<lparr> dn_id = genIds env (idCtr w), dn_dnNo = dnNo, dn_date = date,
                     dn_from = ''Main Warehouse'', dn_to = to, dn_productionPlan = '''',
                     dn_prodRef = '''', dn_generalRemark = '''', dn_items = items,
                     dn_createdAt = clockISO env (tick w), dn_createdBy = actor env \<rparr>)],
            auditLogs := auditLogs (db w)
               @ [(genIds env (Suc (idCtr w) + length items),
                   \<lparr> al_id = genIds env (Suc (idCtr w) + length items),
                     al_at = Some (clockISO env (Suc (tick w) + length items)),
                     al_timestamp = None, al_by = Some (actor env), al_username = None,
                     al_action = ''DN_ADD'', al_entityId = Some (genIds env (idCtr w)),
                     al_targetId = None,
                     al_details = D_DeliveryNote
                       \<lparr> dn_id = genIds env (idCtr w), dn_dnNo = dnNo, dn_date = date,
                         dn_from = ''Main Warehouse'', dn_to = to, dn_productionPlan = '''',
                         dn_prodRef = '''', dn_generalRemark = '''', dn_items = items,
                         dn_createdAt = clockISO env (tick w), dn_createdBy = actor env \<rparr> \<rparr>)] \<rparr>,
        notices := notices w @ [ToastSuccess ''Delivery Note saved and stock updated''],
        idCtr := Suc (Suc (idCtr w) + length items),
        tick := Suc (Suc (tick w) + length items) \<rparr>"
proof -
  let ?c = "idCtr w"
  let ?P = "\<lambda>item. li_qty item > computeBalance (movements env) (li_productId item) True"
  let ?dn = "\<lparr> dn_id = genIds env ?c, dn_dnNo = dnNo, dn_date = date,
                     dn_from = ''Main Warehouse'', dn_to = to, dn_productionPlan = '''',
                     dn_prodRef = '''', dn_generalRemark = '''', dn_items = items,
                     dn_createdAt = clockISO env (tick w), dn_createdBy = actor env \<rparr>"
  let ?w3 = "w\<lparr> idCtr := Suc ?c, tick := Suc (tick w),
                 db := (db w)\<lparr> deliveryNotes := deliveryNotes (db w) @ [(genIds env ?c, ?dn)] \<rparr> \<rparr>"
  note f = freshIds_D [OF assms(1)]
  have none: "find ?P items = None"
    using assms(3) by (auto simp: find_None_iff not_less)
  have inj3: "inj_on (genIds env) {idCtr ?w3..}"
    using f(1) by (auto intro: inj_on_subset)
  have notin3: "\<forall>j\<ge>idCtr ?w3. genIds env j \<notin> fst ` set (stockMovements (db ?w3))"
    using f(2) by simp
  have run: "renderDN_handleSubmit env dnNo date to items w
        = toast (ToastSuccess ''Delivery Note saved and stock updated'')
            (logAction env ''DN_ADD'' (genIds env ?c) (D_DeliveryNote ?dn)
               (renderDN_addMovements env dnNo date items ?w3))"
    using assms(2) none
    by (simp add: renderDN_handleSubmit_def genId_def nowISO_def Let_def
        dbSet_fresh [OF f(4) [of ?c]])
  have lg: "genIds env (Suc (idCtr w + length items)) \<notin> fst ` set (auditLogs (db w))"
    using f(5) [of "Suc (idCtr w + length items)"] by simp
  show ?thesis
    unfolding run renderDN_addMovements_eq [OF inj3 notin3]
    by (rule World.equality) (simp_all add: toast_def logAction_eq dbSet_fresh [OF lg])
qed



lemma renderDN_submit_reject:
  assumes "\<exists>item\<in>set items.
             li_qty item > computeBalance (movements env) (li_productId item) True
             \<or> li_qty item \<le> 0 \<or> li_productId item = []"
  shows "\<exists>n. isError n \<and> renderDN_submit env dnNo date to items w = toast n w"
proof (cases "renderDN_formValid dnNo date to items")
  case False
  then have "renderDN_submit env dnNo date to items w = toast FormInvalid w"
    by (simp add: renderDN_submit_def)
  then show ?thesis by (intro exI [of _ FormInvalid]) simp
next
  case True
  then have ok: "\<forall>item\<in>set items. li_productId item \<noteq> [] \<and> 1 \<le> li_qty item"
    by (simp add: renderDN_formValid_def list_all_iff)
  with assms have "\<exists>item\<in>set items.
      li_qty item > computeBalance (movements env) (li_productId item) True"
    by force
  from renderDN_handleSubmit_reject [OF this, of dnNo date to w]
  obtain x :: LineItem where "renderDN_handleSubmit env dnNo date to items w
      = toast (ToastError (''Insufficient stock for item '' @ li_productId x)) w"
    by blast
  with True have "renderDN_submit env dnNo date to items w
      = toast (ToastError (''Insufficient stock for item '' @ li_productId x)) w"
    by (simp add: renderDN_submit_def)
  then show ?thesis
    by (intro exI [of _ "ToastError (''Insufficient stock for item '' @ li_productId x)"]) simp
qed

lemma renderRMOut_handleStockOut_reject:
  assumes "selectedProduct = None \<or> qty \<le> 0
           \<or> (\<exists>p. selectedProduct = Some p \<and> qty > computeBalance (movements env) (rm_id p) False)"
  shows "db (renderRMOut_handleStockOut env selectedProduct qty remark w) = db w"
  using assms
  by (auto simp: renderRMOut_handleStockOut_def Let_def split: option.splits)

lemma renderFGOut_handleStockOut_reject:
  assumes "selectedProduct = None \<or> qty \<le> 0
           \<or> (\<exists>p. selectedProduct = Some p \<and> qty > computeBalance (movements env) (fg_id p) True)"
  shows "db (renderFGOut_handleStockOut env selectedProduct qty remark w) = db w"
  using assms
  by (auto simp: renderFGOut_handleStockOut_def Let_def split: option.splits)

lemma renderRMOut_submit_reject:
  assumes "selectedProduct = None \<or> qty \<le> 0
           \<or> (\<exists>p. selectedProduct = Some p \<and> qty > computeBalance (movements env) (rm_id p) False)"
  shows "\<exists>n. isError n \<and> renderRMOut_submit env selectedProduct qty remark w = toast n w"
proof (cases "renderRMOut_formValid selectedProduct qty")
  case False
  then have "renderRMOut_submit env selectedProduct qty remark w = toast FormInvalid w"
    by (simp add: renderRMOut_submit_def)
  then show ?thesis by (intro exI [of _ FormInvalid]) simp
next
  case True
  then obtain p where p: "selectedProduct = Some p" and q: "1 \<le> qty"
    by (auto simp: renderRMOut_formValid_def split: option.splits)
  with assms have "qty > computeBalance (movements env) (rm_id p) False" by auto
  with p q True have "renderRMOut_submit env selectedProduct qty remark w
      = toast (ToastError ''Insufficient stock balance'') w"
    by (simp add: renderRMOut_submit_def renderRMOut_handleStockOut_def)
  then show ?thesis
    by (intro exI [of _ "ToastError ''Insufficient stock balance''"]) simp
qed

lemma renderFGOut_submit_reject:
  assumes "selectedProduct = None \<or> qty \<le> 0
           \<or> (\<exists>p. selectedProduct = Some p \<and> qty > computeBalance (movements env) (fg_id p) True)"
  shows "\<exists>n. isError n \<and> renderFGOut_submit env selectedProduct qty remark w = toast n w"
proof (cases "renderFGOut_formValid selectedProduct qty")
  case False
  then have "renderFGOut_submit env selectedProduct qty remark w = toast FormInvalid w"
    by (simp add: renderFGOut_submit_def)
  then show ?thesis by (intro exI [of _ FormInvalid]) simp
next
  case True
  then obtain p where p: "selectedProduct = Some p" and q: "1 \<le> qty"
    by (auto simp: renderFGOut_formValid_def split: option.splits)
  with assms have "qty > computeBalance (movements env) (fg_id p) True" by auto
  with p q True have "renderFGOut_submit env selectedProduct qty remark w
      = toast (ToastError ''Insufficient stock balance'') w"
    by (simp add: renderFGOut_submit_def renderFGOut_handleStockOut_def)
  then show ?thesis
    by (intro exI [of _ "ToastError ''Insufficient stock balance''"]) simp
qed

text \<open>
  C5, as amended. A Delivery-Note or Stock-Out submission in which a requested quantity
  exceeds the balance computed from the cached movement list ends with an error toast
  of the handler, before its first write. A submission in which a quantity is not
  positive or no item is selected on a line is refused by the constraints of the form
  (\<^verbatim>\<open>required\<close>, \<^verbatim>\<open>min="1"\<close>) before the handler runs; the stock-out handlers refuse it
  as well. In each of these cases the world afterwards is the world before with one
  error notification added: no Movement record, no document record and no audit record
  is written, and no identifier is drawn. A Delivery Note with no line at all passes the
  form, and the handler returns at once: nothing is written, and no notification is
  added either.
\<close>

theorem issue_rejected_before_any_write:
  "((\<exists>item\<in>set items.
        li_qty item > computeBalance (movements env) (li_productId item) True
        \<or> li_qty item \<le> 0 \<or> li_productId item = [])
      \<longrightarrow> (\<exists>n. isError n \<and> renderDN_submit env dnNo date to items w = toast n w)
          \<and> db (renderDN_submit env dnNo date to items w) = db w)
   \<and> ((selectedRM = None \<or> qtyRM \<le> 0
        \<or> (\<exists>p. selectedRM = Some p \<and> qtyRM > computeBalance (movements env) (rm_id p) False))
      \<longrightarrow> (\<exists>n. isError n \<and> renderRMOut_submit env selectedRM qtyRM remark w = toast n w)
          \<and> db (renderRMOut_submit env selectedRM qtyRM remark w) = db w
          \<and> db (renderRMOut_handleStockOut env selectedRM qtyRM remark w) = db w)
   \<and> ((selectedFG = None \<or> qtyFG \<le> 0
        \<or> (\<exists>p. selectedFG = Some p \<and> qtyFG > computeBalance (movements env) (fg_id p) True))
      \<longrightarrow> (\<exists>n. isError n \<and> renderFGOut_submit env selectedFG qtyFG remark w = toast n w)
          \<and> db (renderFGOut_submit env selectedFG qtyFG remark w) = db w
          \<and> db (renderFGOut_handleStockOut env selectedFG qtyFG remark w) = db w)
   \<and> ((\<exists>item\<in>set items.
        li_qty item > computeBalance (movements env) (li_productId item) True)
      \<longrightarrow> (\<exists>n. renderDN_handleSubmit env dnNo date to items w = toast (ToastError n) w)
          \<and> db (renderDN_handleSubmit env dnNo date to items w) = db w)
   \<and> renderDN_handleSubmit env dnNo date to [] w = w
   \<and> renderDN_formValid dnNo date to [] = (dnNo \<noteq> [] \<and> to \<noteq> [] \<and> date \<noteq> [])
   \<and> (renderDN_formValid dnNo date to [] \<longrightarrow> renderDN_submit env dnNo date to [] w = w)"
proof (intro conjI impI)
  show "renderDN_handleSubmit env dnNo date to [] w = w"
    by (simp add: renderDN_handleSubmit_def)
  show "renderDN_formValid dnNo date to [] = (dnNo \<noteq> [] \<and> to \<noteq> [] \<and> date \<noteq> [])"
    by (simp add: renderDN_formValid_def)
next
  assume "renderDN_formValid dnNo date to []"
  then show "renderDN_submit env dnNo date to [] w = w"
    by (simp add: renderDN_submit_def renderDN_handleSubmit_def)
next
  assume a: "\<exists>item\<in>set items.
        li_qty item > computeBalance (movements env) (li_productId item) True
        \<or> li_qty item \<le> 0 \<or> li_productId item = []"
  from renderDN_submit_reject [OF a, of dnNo date to w]
  show "\<exists>n. isError n \<and> renderDN_submit env dnNo date to items w = toast n w" .
  then show "db (renderDN_submit env dnNo date to items w) = db w" by auto
next
  assume a: "selectedRM = None \<or> qtyRM \<le> 0
        \<or> (\<exists>p. selectedRM = Some p \<and> qtyRM > computeBalance (movements env) (rm_id p) False)"
  from renderRMOut_submit_reject [OF a, of remark w]
  show "\<exists>n. isError n \<and> renderRMOut_submit env selectedRM qtyRM remark w = toast n w" .
  then show "db (renderRMOut_submit env selectedRM qtyRM remark w) = db w" by auto
  from renderRMOut_handleStockOut_reject [OF a, of remark w]
  show "db (renderRMOut_handleStockOut env selectedRM qtyRM remark w) = db w" .
next
  assume a: "selectedFG = None \<or> qtyFG \<le> 0
        \<or> (\<exists>p. selectedFG = Some p \<and> qtyFG > computeBalance (movements env) (fg_id p) True)"
  from renderFGOut_submit_reject [OF a, of remark w]
  show "\<exists>n. isError n \<and> renderFGOut_submit env selectedFG qtyFG remark w = toast n w" .
  then show "db (renderFGOut_submit env selectedFG qtyFG remark w) = db w" by auto
  from renderFGOut_handleStockOut_reject [OF a, of remark w]
  show "db (renderFGOut_handleStockOut env selectedFG qtyFG remark w) = db w" .
next
  assume a: "\<exists>item\<in>set items.
        li_qty item > computeBalance (movements env) (li_productId item) True"
  from renderDN_handleSubmit_reject [OF a, of dnNo date to w]
  show "\<exists>n. renderDN_handleSubmit env dnNo date to items w = toast (ToastError n) w"
    by blast
  then show "db (renderDN_handleSubmit env dnNo date to items w) = db w" by auto
qed

theorem issue_rejected_before_any_write_witness:
  "computeBalance (movements scenarioEnv) ''fg-a'' True = 15
   \<and> renderDN_submit scenarioEnv ''DN-1'' ''2024-03-14'' ''Customer''
        [scenarioLine ''fg-a'' 20] scenarioWorld
       = toast (ToastError ''Insufficient stock for item fg-a'') scenarioWorld
   \<and> db (renderDN_submit scenarioEnv ''DN-1'' ''2024-03-14'' ''Customer''
        [scenarioLine ''fg-a'' 20] scenarioWorld) = db scenarioWorld
   \<and> db (renderDN_submit scenarioEnv ''DN-1'' ''2024-03-14'' ''Customer''
        [scenarioLine ''fg-a'' 0] scenarioWorld) = db scenarioWorld
   \<and> db (renderDN_submit scenarioEnv ''DN-1'' ''2024-03-14'' ''Customer''
        [scenarioLine '''' 1] scenarioWorld) = db scenarioWorld
   \<and> db (renderRMOut_submit scenarioEnv None 5 '''' scenarioWorld) = db scenarioWorld
   \<and> db (renderRMOut_submit scenarioEnv (Some scenarioItem) 5 '''' scenarioWorld)
       = db scenarioWorld
   \<and> db (renderFGOut_submit scenarioEnv None 0 '''' scenarioWorld) = db scenarioWorld
   \<and> db (renderDN_handleSubmit scenarioEnv ''DN-1'' ''2024-03-14'' ''Customer''
        [scenarioLine ''fg-a'' 20] scenarioWorld) = db scenarioWorld
   \<and> renderDN_formValid ''DN-2'' ''2024-03-15'' ''Depot'' []
   \<and> renderDN_submit scenarioEnv ''DN-2'' ''2024-03-15'' ''Depot'' [] scenarioWorld
       = scenarioWorld"
proof -
  note bal = scenario_balance
  have rm0: "computeBalance (movements scenarioEnv) (rm_id scenarioItem) False = 0"
    by (simp add: scenarioEnv_def snapshotMovements_def scenarioStore_def scenarioFGIn15_def
      computeBalance_sum classKey_def scenarioItem_def)
  have d20: "\<exists>item\<in>set [scenarioLine ''fg-a'' 20].
        li_qty item > computeBalance (movements scenarioEnv) (li_productId item) True"
    by (simp add: scenarioLine_def bal)
  have d0: "\<exists>item\<in>set [scenarioLine ''fg-a'' 0].
        li_qty item > computeBalance (movements scenarioEnv) (li_productId item) True
        \<or> li_qty item \<le> 0 \<or> li_productId item = []"
    by (simp add: scenarioLine_def)
  have dsel: "\<exists>item\<in>set [scenarioLine '''' 1].
        li_qty item > computeBalance (movements scenarioEnv) (li_productId item) True
        \<or> li_qty item \<le> 0 \<or> li_productId item = []"
    by (simp add: scenarioLine_def)
  have rm5: "\<exists>p. Some scenarioItem = Some p
        \<and> 5 > computeBalance (movements scenarioEnv) (rm_id p) False"
    by (simp add: rm0)
  have t: "renderDN_submit scenarioEnv ''DN-1'' ''2024-03-14'' ''Customer''
        [scenarioLine ''fg-a'' 20] scenarioWorld
       = toast (ToastError ''Insufficient stock for item fg-a'') scenarioWorld"
    by (simp add: renderDN_submit_def renderDN_formValid_def renderDN_handleSubmit_def
        scenarioLine_def bal)
  have 1: "db (renderDN_submit scenarioEnv ''DN-1'' ''2024-03-14'' ''Customer''
        [scenarioLine ''fg-a'' 20] scenarioWorld) = db scenarioWorld"
    and 5: "db (renderDN_handleSubmit scenarioEnv ''DN-1'' ''2024-03-14'' ''Customer''
        [scenarioLine ''fg-a'' 20] scenarioWorld) = db scenarioWorld"
    using issue_rejected_before_any_write [of "[scenarioLine ''fg-a'' 20]" scenarioEnv
        "''DN-1''" "''2024-03-14''" "''Customer''" scenarioWorld] d20
    by blast+
  have 2: "db (renderDN_submit scenarioEnv ''DN-1'' ''2024-03-14'' ''Customer''
        [scenarioLine ''fg-a'' 0] scenarioWorld) = db scenarioWorld"
    using issue_rejected_before_any_write [of "[scenarioLine ''fg-a'' 0]" scenarioEnv
        "''DN-1''" "''2024-03-14''" "''Customer''" scenarioWorld] d0
    by blast
  have 3: "db (renderDN_submit scenarioEnv ''DN-1'' ''2024-03-14'' ''Customer''
        [scenarioLine '''' 1] scenarioWorld) = db scenarioWorld"
    using issue_rejected_before_any_write [of "[scenarioLine '''' 1]" scenarioEnv
        "''DN-1''" "''2024-03-14''" "''Customer''" scenarioWorld] dsel
    by blast
  have 4: "db (renderRMOut_submit scenarioEnv None 5 '''' scenarioWorld) = db scenarioWorld"
    "db (renderFGOut_submit scenarioEnv None 0 '''' scenarioWorld) = db scenarioWorld"
    using issue_rejected_before_any_write [of "[]" scenarioEnv "''''" "''''" "''''"
        scenarioWorld None 5 "''''" None 0]
    by blast+
  have 6: "db (renderRMOut_submit scenarioEnv (Some scenarioItem) 5 '''' scenarioWorld)
       = db scenarioWorld"
    using issue_rejected_before_any_write [of "[]" scenarioEnv "''''" "''''" "''''"
        scenarioWorld "Some scenarioItem" 5 "''''" None 0] rm5
    by blast
  have v: "renderDN_formValid ''DN-2'' ''2024-03-15'' ''Depot'' []"
    by (simp add: renderDN_formValid_def)
  have 7: "renderDN_submit scenarioEnv ''DN-2'' ''2024-03-15'' ''Depot'' [] scenarioWorld
       = scenarioWorld"
    using issue_rejected_before_any_write [of "[]" scenarioEnv "''DN-2''" "''2024-03-15''"
        "''Depot''" scenarioWorld None 0 "''''" None 0] v
    by blast
  show ?thesis
    by (intro conjI bal t 1 2 3 4 5 6 v 7)
qed

text \<open>
  A delivery note with its number, date and destination filled in and no line: nothing
  is selected, the form has no unsatisfied constraint, and the handler returns at its
  first statement. Nothing is written, and no error is shown.
\<close>

theorem renderDN_no_line_silent_counterexample:
  "renderDN_formValid ''DN-1'' ''2024-03-14'' ''Customer'' []
   \<and> renderDN_submit scenarioEnv ''DN-1'' ''2024-03-14'' ''Customer'' [] scenarioWorld
       = scenarioWorld
   \<and> notices (renderDN_submit scenarioEnv ''DN-1'' ''2024-03-14'' ''Customer'' []
        scenarioWorld) = []
   \<and> \<not> (\<exists>n. renderDN_submit scenarioEnv ''DN-1'' ''2024-03-14'' ''Customer'' [] scenarioWorld
              = toast n scenarioWorld)"
  by (simp add: renderDN_formValid_def renderDN_submit_def renderDN_handleSubmit_def
      scenarioWorld_def toast_def)

section \<open>The stock check of a delivery note\<close>

lemma scenario_two_lines_pass:
  "\<forall>item\<in>set [scenarioLine ''fg-a'' 10, scenarioLine ''fg-a'' 10].
      li_qty item \<le> computeBalance (movements scenarioEnv) (li_productId item) True"
  by (simp add: scenarioLine_def scenario_balance)

lemma scenario_two_lines_movements:
  "stockMovements (db (renderDN_handleSubmit scenarioEnv ''DN-1'' ''2024-03-14'' ''Customer''
      [scenarioLine ''fg-a'' 10, scenarioLine ''fg-a'' 10] scenarioWorld))
   = [(''mv-1'', scenarioFGIn15),
      (''id_aa'',
       \<lparr> m_id = ''id_aa'', m_productId = None, m_fgId = Some ''fg-a'', m_type = OUT,
         m_quantity = Some 10, m_qty = None, m_date = ''2024-03-14'', m_remark = ''DN: DN-1'',
         m_billId = None, m_productionId = None, m_createdAt = ''2024-03-14T10:00:00.000Z'',
         m_createdBy = ''admin'', m_batch = None, m_expiry = None \<rparr>),
      (''id_aaa'',
       \<lparr> m_id = ''id_aaa'', m_productId = None, m_fgId = Some ''fg-a'', m_type = OUT,
         m_quantity = Some 10, m_qty = None, m_date = ''2024-03-14'', m_remark = ''DN: DN-1'',
         m_billId = None, m_productionId = None, m_createdAt = ''2024-03-14T10:00:00.000Z'',
         m_createdBy = ''admin'', m_batch = None, m_expiry = None \<rparr>)]"
  and scenario_two_lines_fg:
  "fgMovements (db (renderDN_handleSubmit scenarioEnv ''DN-1'' ''2024-03-14'' ''Customer''
      [scenarioLine ''fg-a'' 10, scenarioLine ''fg-a'' 10] scenarioWorld)) = []"
proof -
  have ne: "[scenarioLine ''fg-a'' 10, scenarioLine ''fg-a'' 10] \<noteq> []" by simp
  note run = renderDN_handleSubmit_pass [OF scenario_freshIds ne scenario_two_lines_pass,
      of "''DN-1''" "''2024-03-14''" "''Customer''"]
  have ids: "genIds scenarioEnv (Suc 0) = ''id_aa''"
    "genIds scenarioEnv (Suc (Suc 0)) = ''id_aaa''" "idCtr scenarioWorld = 0"
    "tick scenarioWorld = 0" "clockISO scenarioEnv = (\<lambda>t. ''2024-03-14T10:00:00.000Z'')"
    "actor scenarioEnv = ''admin''"
    by (simp_all add: scenarioEnv_def scenarioIds_def scenarioWorld_def actor_def
        scenarioAdmin_def)
  have old: "stockMovements (db scenarioWorld) = [(''mv-1'', scenarioFGIn15)]"
    "fgMovements (db scenarioWorld) = []"
    by (simp_all add: scenarioWorld_def scenarioStore_def)
  show "stockMovements (db (renderDN_handleSubmit scenarioEnv ''DN-1'' ''2024-03-14'' ''Customer''
      [scenarioLine ''fg-a'' 10, scenarioLine ''fg-a'' 10] scenarioWorld))
   = [(''mv-1'', scenarioFGIn15),
      (''id_aa'',
       \<lparr> m_id = ''id_aa'', m_productId = None, m_fgId = Some ''fg-a'', m_type = OUT,
         m_quantity = Some 10, m_qty = None, m_date = ''2024-03-14'', m_remark = ''DN: DN-1'',
         m_billId = None, m_productionId = None, m_createdAt = ''2024-03-14T10:00:00.000Z'',
         m_createdBy = ''admin'', m_batch = None, m_expiry = None \<rparr>),
      (''id_aaa'',
       \<lparr> m_id = ''id_aaa'', m_productId = None, m_fgId = Some ''fg-a'', m_type = OUT,
         m_quantity = Some 10, m_qty = None, m_date = ''2024-03-14'', m_remark = ''DN: DN-1'',
         m_billId = None, m_productionId = None, m_createdAt = ''2024-03-14T10:00:00.000Z'',
         m_createdBy = ''admin'', m_batch = None, m_expiry = None \<rparr>)]"
    unfolding run by (simp add: ids old scenarioLine_def)
  show "fgMovements (db (renderDN_handleSubmit scenarioEnv ''DN-1'' ''2024-03-14'' ''Customer''
      [scenarioLine ''fg-a'' 10, scenarioLine ''fg-a'' 10] scenarioWorld)) = []"
    unfolding run by (simp add: old)
qed




section \<open>Movements are only added\<close>

lemma appendsMovements_same:
  assumes "stockMovements (db w') = stockMovements (db w)"
    and "fgMovements (db w') = fgMovements (db w)"
  shows "appendsMovements env w w'"
  unfolding appendsMovements_def using assms by simp

lemma appendsMovements_list:
  assumes "freshIds env w"
    and "stockMovements (db w') = stockMovements (db w) @ new"
    and "map fst new = map (genIds env) [c..<c + n]"
    and "idCtr w \<le> c"
    and "fgMovements (db w') = fgMovements (db w)"
  shows "appendsMovements env w w'"
proof -
  have "set (map fst new) = set (map (genIds env) [c..<c + n])"
    by (simp only: assms(3))
  then have keys: "fst ` set new = genIds env ` {c..<c + n}"
    by simp
  have "{c..<c + n} \<subseteq> {idCtr w..}"
    using assms(4) by auto
  then have sub: "fst ` set new \<subseteq> genIds env ` {idCtr w..}"
    unfolding keys by (rule image_mono)
  have dis: "fst ` set new \<inter> fst ` set (stockMovements (db w)) = {}"
  proof (rule ccontr)
    assume "fst ` set new \<inter> fst ` set (stockMovements (db w)) \<noteq> {}"
    then obtain k where k: "k \<in> fst ` set new" "k \<in> fst ` set (stockMovements (db w))"
      by auto
    from k(1) sub obtain j where j: "idCtr w \<le> j" "k = genIds env j"
      by auto
    from freshIds_D(2) [OF assms(1) j(1)] k(2) j(2) show False
      by simp
  qed
  show ?thesis
    unfolding appendsMovements_def
    by (intro conjI exI [of _ new] assms(2) sub dis assms(5))
qed

lemma appendsMovements_one:
  assumes "freshIds env w"
    and "stockMovements (db w') = stockMovements (db w) @ [(genIds env c, mv)]"
    and "idCtr w \<le> c"
    and "fgMovements (db w') = fgMovements (db w)"
  shows "appendsMovements env w w'"
  by (rule appendsMovements_list [OF assms(1,2) _ assms(3,4), of "Suc 0"]) simp

lemma renderRMIn_appends:
  assumes "freshIds env w"
  shows "appendsMovements env w (renderRMIn_handleStockIn env sp qty remark w)"
proof (cases "sp = None \<or> qty \<le> 0")
  case True
  then have "renderRMIn_handleStockIn env sp qty remark w = w"
    by (auto simp: renderRMIn_handleStockIn_def split: option.splits)
  then show ?thesis by (simp add: appendsMovements_same)
next
  case False
  then obtain p where p: "sp = Some p" and q: "\<not> qty \<le> 0" by auto
  note f0 = freshIds_D(2) [OF assms, of "idCtr w", simplified]
  let ?r = "renderRMIn_handleStockIn env sp qty remark w"
  have "\<exists>mv. stockMovements (db ?r) = stockMovements (db w) @ [(genIds env (idCtr w), mv)]"
    using p q
    by (simp add: renderRMIn_handleStockIn_def genId_def todayISO_def nowISO_def Let_def
        setStockMovement_def logAction_eq toast_def dbSet_fresh [OF f0])
  then obtain mv where m: "stockMovements (db ?r)
      = stockMovements (db w) @ [(genIds env (idCtr w), mv)]" ..
  have fg: "fgMovements (db ?r) = fgMovements (db w)"
    using p q
    by (simp add: renderRMIn_handleStockIn_def genId_def todayISO_def nowISO_def Let_def
        setStockMovement_def logAction_eq toast_def)
  show ?thesis
    by (rule appendsMovements_one [OF assms m _ fg]) simp
qed

lemma renderFGIn_appends:
  assumes "freshIds env w"
  shows "appendsMovements env w (renderFGIn_handleStockIn env sp qty remark w)"
proof (cases "sp = None \<or> qty \<le> 0")
  case True
  then have "renderFGIn_handleStockIn env sp qty remark w = w"
    by (auto simp: renderFGIn_handleStockIn_def split: option.splits)
  then show ?thesis by (simp add: appendsMovements_same)
next
  case False
  then obtain p where p: "sp = Some p" and q: "\<not> qty \<le> 0" by auto
  note f0 = freshIds_D(2) [OF assms, of "idCtr w", simplified]
  let ?r = "renderFGIn_handleStockIn env sp qty remark w"
  have "\<exists>mv. stockMovements (db ?r) = stockMovements (db w) @ [(genIds env (idCtr w), mv)]"
    using p q
    by (simp add: renderFGIn_handleStockIn_def genId_def todayISO_def nowISO_def Let_def
        setStockMovement_def logAction_eq toast_def dbSet_fresh [OF f0])
  then obtain mv where m: "stockMovements (db ?r)
      = stockMovements (db w) @ [(genIds env (idCtr w), mv)]" ..
  have fg: "fgMovements (db ?r) = fgMovements (db w)"
    using p q
    by (simp add: renderFGIn_handleStockIn_def genId_def todayISO_def nowISO_def Let_def
        setStockMovement_def logAction_eq toast_def)
  show ?thesis
    by (rule appendsMovements_one [OF assms m _ fg]) simp
qed

lemma renderRMOut_appends:
  assumes "freshIds env w"
  shows "appendsMovements env w (renderRMOut_handleStockOut env sp qty remark w)"
proof (cases "sp = None \<or> qty \<le> 0
    \<or> (\<exists>p. sp = Some p \<and> qty > computeBalance (movements env) (rm_id p) False)")
  case True
  then have "db (renderRMOut_handleStockOut env sp qty remark w) = db w"
    by (rule renderRMOut_handleStockOut_reject)
  then show ?thesis by (simp add: appendsMovements_same)
next
  case False
  then obtain p where p: "sp = Some p" and q: "\<not> qty \<le> 0"
    and b: "\<not> qty > computeBalance (movements env) (rm_id p) False" by auto
  note f0 = freshIds_D(2) [OF assms, of "idCtr w", simplified]
  let ?r = "renderRMOut_handleStockOut env sp qty remark w"
  have "\<exists>mv. stockMovements (db ?r) = stockMovements (db w) @ [(genIds env (idCtr w), mv)]"
    using p q b
    by (simp add: renderRMOut_handleStockOut_def genId_def todayISO_def nowISO_def Let_def
        setStockMovement_def logAction_eq toast_def dbSet_fresh [OF f0])
  then obtain mv where m: "stockMovements (db ?r)
      = stockMovements (db w) @ [(genIds env (idCtr w), mv)]" ..
  have fg: "fgMovements (db ?r) = fgMovements (db w)"
    using p q b
    by (simp add: renderRMOut_handleStockOut_def genId_def todayISO_def nowISO_def Let_def
        setStockMovement_def logAction_eq toast_def)
  show ?thesis
    by (rule appendsMovements_one [OF assms m _ fg]) simp
qed

lemma renderFGOut_appends:
  assumes "freshIds env w"
  shows "appendsMovements env w (renderFGOut_handleStockOut env sp qty remark w)"
proof (cases "sp = None \<or> qty \<le> 0
    \<or> (\<exists>p. sp = Some p \<and> qty > computeBalance (movements env) (fg_id p) True)")
  case True
  then have "db (renderFGOut_handleStockOut env sp qty remark w) = db w"
    by (rule renderFGOut_handleStockOut_reject)
  then show ?thesis by (simp add: appendsMovements_same)
next
  case False
  then obtain p where p: "sp = Some p" and q: "\<not> qty \<le> 0"
    and b: "\<not> qty > computeBalance (movements env) (fg_id p) True" by auto
  note f0 = freshIds_D(2) [OF assms, of "idCtr w", simplified]
  let ?r = "renderFGOut_handleStockOut env sp qty remark w"
  have "\<exists>mv. stockMovements (db ?r) = stockMovements (db w) @ [(genIds env (idCtr w), mv)]"
    using p q b
    by (simp add: renderFGOut_handleStockOut_def genId_def todayISO_def nowISO_def Let_def
        setStockMovement_def logAction_eq toast_def dbSet_fresh [OF f0])
  then obtain mv where m: "stockMovements (db ?r)
      = stockMovements (db w) @ [(genIds env (idCtr w), mv)]" ..
  have fg: "fgMovements (db ?r) = fgMovements (db w)"
    using p q b
    by (simp add: renderFGOut_handleStockOut_def genId_def todayISO_def nowISO_def Let_def
        setStockMovement_def logAction_eq toast_def)
  show ?thesis
    by (rule appendsMovements_one [OF assms m _ fg]) simp
qed

lemma renderProductionAdd_appends:
  assumes "freshIds env w"
  shows "appendsMovements env w (renderProductionAdd_handleSubmit env sp qty batch expiry w)"
proof (cases "sp = None \<or> qty \<le> 0")
  case True
  then have "renderProductionAdd_handleSubmit env sp qty batch expiry w = w"
    by (auto simp: renderProductionAdd_handleSubmit_def split: option.splits)
  then show ?thesis by (simp add: appendsMovements_same)
next
  case False
  then obtain p where p: "sp = Some p" and q: "\<not> qty \<le> 0" by auto
  note f1 = freshIds_D(2) [OF assms, of "Suc (idCtr w)", simplified]
  let ?r = "renderProductionAdd_handleSubmit env sp qty batch expiry w"
  have "\<exists>mv. stockMovements (db ?r) = stockMovements (db w) @ [(genIds env (Suc (idCtr w)), mv)]"
    using p q
    by (simp add: renderProductionAdd_handleSubmit_def genId_def todayISO_def nowISO_def
        Let_def setStockMovement_def logAction_eq toast_def dbSet_fresh [OF f1])
  then obtain mv where m: "stockMovements (db ?r)
      = stockMovements (db w) @ [(genIds env (Suc (idCtr w)), mv)]" ..
  have fg: "fgMovements (db ?r) = fgMovements (db w)"
    using p q
    by (simp add: renderProductionAdd_handleSubmit_def genId_def todayISO_def nowISO_def
        Let_def setStockMovement_def logAction_eq toast_def)
  show ?thesis
    by (rule appendsMovements_one [OF assms m _ fg]) simp
qed

lemma renderGRN_appends:
  assumes "freshIds env w"
  shows "appendsMovements env w (renderGRN_handleSubmit env sp billNo date items w)"
proof (cases "sp = None \<or> items = []")
  case True
  then have "renderGRN_handleSubmit env sp billNo date items w = w"
    by (auto simp: renderGRN_handleSubmit_def split: option.splits)
  then show ?thesis by (simp add: appendsMovements_same)
next
  case False
  then obtain supplier where p: "sp = Some supplier" and ne: "items \<noteq> []" by auto
  let ?c = "idCtr w"
  let ?bill = "\<lparr> b_id = genIds env ?c, b_billNo = billNo, b_date = date,
                   b_supplierId = s_id supplier, b_supplierName = s_name supplier,
                   b_items = items, b_createdAt = clockISO env (tick w),
                   b_createdBy = actor env, b_updatedAt = None, b_updatedBy = None \<rparr>"
  let ?w3 = "w\<lparr> idCtr := Suc ?c, tick := Suc (tick w),
                 db := (db w)\<lparr> bills := dbSet (genIds env ?c) ?bill (bills (db w)) \<rparr> \<rparr>"
  let ?new = "renderGRN_newMovements env (genIds env ?c) billNo date items (Suc ?c) (Suc (tick w))"
  let ?r = "renderGRN_handleSubmit env sp billNo date items w"
  note f = freshIds_D [OF assms]
  have inj3: "inj_on (genIds env) {idCtr ?w3..}"
    using f(1) by (auto intro: inj_on_subset)
  have notin3: "\<forall>j\<ge>idCtr ?w3. genIds env j \<notin> fst ` set (stockMovements (db ?w3))"
    using f(2) by simp
  have run: "?r = toast (ToastSuccess ''GRN saved and stock updated'')
            (logAction env ''GRN_ADD'' (genIds env ?c) (D_Bill ?bill)
               (renderGRN_addMovements env (genIds env ?c) billNo date items ?w3))"
    using p ne
    by (simp add: renderGRN_handleSubmit_def genId_def nowISO_def Let_def)
  have m: "stockMovements (db ?r) = stockMovements (db w) @ ?new"
    unfolding run renderGRN_addMovements_eq [OF inj3 notin3]
    by (simp add: toast_def logAction_eq)
  have fg: "fgMovements (db ?r) = fgMovements (db w)"
    unfolding run renderGRN_addMovements_eq [OF inj3 notin3]
    by (simp add: toast_def logAction_eq)
  show ?thesis
    by (rule appendsMovements_list [OF assms m renderGRN_newMovements_keys _ fg]) simp
qed

lemma renderDN_appends:
  assumes "freshIds env w"
  shows "appendsMovements env w (renderDN_handleSubmit env dnNo date to items w)"
proof -
  let ?P = "\<lambda>item. li_qty item > computeBalance (movements env) (li_productId item) True"
  let ?r = "renderDN_handleSubmit env dnNo date to items w"
  consider "items = []" | "\<exists>item\<in>set items. ?P item"
    | "items \<noteq> []" "\<forall>item\<in>set items. \<not> ?P item"
    by blast
  then show ?thesis
  proof cases
    case 1
    then have "?r = w" by (simp add: renderDN_handleSubmit_def)
    then show ?thesis by (simp add: appendsMovements_same)
  next
    case 2
    from renderDN_handleSubmit_reject [OF this, of dnNo date to w]
    have "db ?r = db w" by auto
    then show ?thesis by (simp add: appendsMovements_same)
  next
    case 3
    from 3(2) have le: "\<forall>item\<in>set items.
        li_qty item \<le> computeBalance (movements env) (li_productId item) True"
      by (simp add: not_less)
    note run = renderDN_handleSubmit_pass [OF assms 3(1) le, of dnNo date to]
    have m: "stockMovements (db ?r) = stockMovements (db w)
        @ renderDN_newMovements env dnNo date items (Suc (idCtr w)) (Suc (tick w))"
      unfolding run by simp
    have fg: "fgMovements (db ?r) = fgMovements (db w)"
      unfolding run by simp
    show ?thesis
      by (rule appendsMovements_list [OF assms m renderDN_newMovements_keys _ fg]) simp
  qed
qed

lemma supplier_user_appends:
  "appendsMovements env w (renderSuppliers_handleSubmit env sform isEditing w)"
  "appendsMovements env w (renderSuppliers_delete env s confirmed w)"
  "appendsMovements env w (renderUserManagement_handleSubmit env uform isEditing w)"
  "appendsMovements env w (renderUserManagement_delete env u confirmed w)"
  by (rule appendsMovements_same;
      simp add: renderSuppliers_handleSubmit_def renderSuppliers_delete_def
        renderUserManagement_handleSubmit_def renderUserManagement_delete_def
        genId_def nowISO_def Let_def logAction_eq toast_def)+

lemma step_appends:
  assumes "freshIds env w"
  shows "appendsMovements env w (step env op w)"
  using assms
  by (cases op)
     (simp_all add: renderRMIn_appends renderRMOut_appends renderFGIn_appends
        renderFGOut_appends renderProductionAdd_appends renderGRN_appends renderDN_appends
        supplier_user_appends)

subsection \<open>Movements change under drawn identifiers only\<close>

lemma writesUnderDrawnIds_same:
  assumes "idCtr w \<le> idCtr w'"
    and "stockMovements (db w') = stockMovements (db w)"
    and "fgMovements (db w') = fgMovements (db w)"
  shows "writesUnderDrawnIds env w w'"
  unfolding writesUnderDrawnIds_def using assms
  by (intro conjI exI [of _ Map.empty]) simp_all

lemma writesUnderDrawnIds_write:
  assumes "idCtr w \<le> c" and "c < idCtr w'"
    and "stockMovements (db w') = dbSet (genIds env c) mv (stockMovements (db w))"
    and "fgMovements (db w') = fgMovements (db w)"
  shows "writesUnderDrawnIds env w w'"
proof -
  have le: "idCtr w \<le> idCtr w'"
    using assms(1,2) by simp
  have m: "map_of (stockMovements (db w'))
      = map_of (stockMovements (db w)) ++ [genIds env c \<mapsto> mv]"
    by (simp add: assms(3) map_of_dbSet)
  have "c \<in> {idCtr w..<idCtr w'}"
    using assms(1,2) by simp
  then have "genIds env c \<in> genIds env ` {idCtr w..<idCtr w'}"
    by (rule imageI)
  then have d: "dom [genIds env c \<mapsto> mv] \<subseteq> genIds env ` {idCtr w..<idCtr w'}"
    by simp
  show ?thesis
    unfolding writesUnderDrawnIds_def
    by (intro conjI exI [of _ "[genIds env c \<mapsto> mv]"] le m d assms(4))
qed

lemma writesUnderDrawnIds_trans:
  assumes "writesUnderDrawnIds env w w1" and "writesUnderDrawnIds env w1 w2"
  shows "writesUnderDrawnIds env w w2"
proof -
  from assms(1) obtain u1 where 1: "idCtr w \<le> idCtr w1"
    "map_of (stockMovements (db w1)) = map_of (stockMovements (db w)) ++ u1"
    "dom u1 \<subseteq> genIds env ` {idCtr w..<idCtr w1}"
    "fgMovements (db w1) = fgMovements (db w)"
    unfolding writesUnderDrawnIds_def by blast
  from assms(2) obtain u2 where 2: "idCtr w1 \<le> idCtr w2"
    "map_of (stockMovements (db w2)) = map_of (stockMovements (db w1)) ++ u2"
    "dom u2 \<subseteq> genIds env ` {idCtr w1..<idCtr w2}"
    "fgMovements (db w2) = fgMovements (db w1)"
    unfolding writesUnderDrawnIds_def by blast
  have le: "idCtr w \<le> idCtr w2"
    using 1(1) 2(1) by simp
  have m: "map_of (stockMovements (db w2)) = map_of (stockMovements (db w)) ++ (u1 ++ u2)"
    by (simp add: 1(2) 2(2))
  have s1: "{idCtr w..<idCtr w1} \<subseteq> {idCtr w..<idCtr w2}"
    using 2(1) by auto
  have s2: "{idCtr w1..<idCtr w2} \<subseteq> {idCtr w..<idCtr w2}"
    using 1(1) by auto
  have d1: "dom u1 \<subseteq> genIds env ` {idCtr w..<idCtr w2}"
    by (rule subset_trans [OF 1(3) image_mono [OF s1]])
  have d2: "dom u2 \<subseteq> genIds env ` {idCtr w..<idCtr w2}"
    by (rule subset_trans [OF 2(3) image_mono [OF s2]])
  have d: "dom (u1 ++ u2) \<subseteq> genIds env ` {idCtr w..<idCtr w2}"
    using d1 d2 by simp
  have fg: "fgMovements (db w2) = fgMovements (db w)"
    using 1(4) 2(4) by simp
  show ?thesis
    unfolding writesUnderDrawnIds_def
    by (intro conjI exI [of _ "u1 ++ u2"] le m d fg)
qed

lemma writesUnderDrawnIds_D:
  assumes "writesUnderDrawnIds env w w'"
  shows "idCtr w \<le> idCtr w'"
    and "fst ` set (stockMovements (db w)) \<subseteq> fst ` set (stockMovements (db w'))"
    and "\<And>k. k \<notin> genIds env ` {idCtr w..<idCtr w'} \<Longrightarrow>
           map_of (stockMovements (db w')) k = map_of (stockMovements (db w)) k"
    and "fgMovements (db w') = fgMovements (db w)"
proof -
  from assms obtain upd where u: "idCtr w \<le> idCtr w'"
    "map_of (stockMovements (db w')) = map_of (stockMovements (db w)) ++ upd"
    "dom upd \<subseteq> genIds env ` {idCtr w..<idCtr w'}"
    "fgMovements (db w') = fgMovements (db w)"
    unfolding writesUnderDrawnIds_def by blast
  show "idCtr w \<le> idCtr w'" by (rule u(1))
  show "fgMovements (db w') = fgMovements (db w)" by (rule u(4))
  have "dom (map_of (stockMovements (db w))) \<subseteq> dom (map_of (stockMovements (db w')))"
    unfolding u(2) by simp
  then show "fst ` set (stockMovements (db w)) \<subseteq> fst ` set (stockMovements (db w'))"
    by (simp only: dom_map_of_conv_image_fst)
  fix k assume "k \<notin> genIds env ` {idCtr w..<idCtr w'}"
  with u(3) have "k \<notin> dom upd" by (rule contra_subsetD)
  then show "map_of (stockMovements (db w')) k = map_of (stockMovements (db w)) k"
    unfolding u(2) by (simp add: map_add_dom_app_simps)
qed

lemma writesUnderDrawnIds_toast:
  "writesUnderDrawnIds env w w' \<Longrightarrow> writesUnderDrawnIds env w (toast n w')"
  by (simp add: writesUnderDrawnIds_def toast_def)

lemma writesUnderDrawnIds_logAction:
  assumes "writesUnderDrawnIds env w w'"
  shows "writesUnderDrawnIds env w (logAction env a e d w')"
proof -
  have "writesUnderDrawnIds env w' (logAction env a e d w')"
    by (rule writesUnderDrawnIds_same) (simp_all add: logAction_eq)
  with assms show ?thesis by (rule writesUnderDrawnIds_trans)
qed

lemma renderGRN_addMovements_drawn:
  "writesUnderDrawnIds env w (renderGRN_addMovements env b n d items w)"
proof (induction items arbitrary: w)
  case Nil
  show ?case by (simp add: writesUnderDrawnIds_same)
next
  case (Cons item items)
  let ?k = "genIds env (idCtr w)"
  let ?mv = "\<lparr> m_id = ?k, m_productId = Some (li_productId item), m_fgId = None,
        m_type = IN, m_quantity = Some (li_qty item), m_qty = None, m_date = d,
        m_remark = ''GRN: '' @ n, m_billId = Some b, m_productionId = None,
        m_createdAt = clockISO env (tick w), m_createdBy = actor env,
        m_batch = None, m_expiry = None \<rparr>"
  let ?w3 = "w\<lparr> idCtr := Suc (idCtr w), tick := Suc (tick w),
        db := (db w)\<lparr> stockMovements := dbSet ?k ?mv (stockMovements (db w)) \<rparr> \<rparr>"
  have unfold: "renderGRN_addMovements env b n d (item # items) w
        = renderGRN_addMovements env b n d items ?w3"
    by (simp add: genId_def nowISO_def setStockMovement_def Let_def)
  have 1: "writesUnderDrawnIds env w ?w3"
    by (rule writesUnderDrawnIds_write [of w "idCtr w" ?w3 env ?mv]) simp_all
  show ?case
    unfolding unfold by (rule writesUnderDrawnIds_trans [OF 1 Cons.IH])
qed

lemma renderDN_addMovements_drawn:
  "writesUnderDrawnIds env w (renderDN_addMovements env n d items w)"
proof (induction items arbitrary: w)
  case Nil
  show ?case by (simp add: writesUnderDrawnIds_same)
next
  case (Cons item items)
  let ?k = "genIds env (idCtr w)"
  let ?mv = "\<lparr> m_id = ?k, m_productId = None, m_fgId = Some (li_productId item),
        m_type = OUT, m_quantity = Some (li_qty item), m_qty = None, m_date = d,
        m_remark = ''DN: '' @ n, m_billId = None, m_productionId = None,
        m_createdAt = clockISO env (tick w), m_createdBy = actor env,
        m_batch = None, m_expiry = None \<rparr>"
  let ?w3 = "w\<lparr> idCtr := Suc (idCtr w), tick := Suc (tick w),
        db := (db w)\<lparr> stockMovements := dbSet ?k ?mv (stockMovements (db w)) \<rparr> \<rparr>"
  have unfold: "renderDN_addMovements env n d (item # items) w
        = renderDN_addMovements env n d items ?w3"
    by (simp add: genId_def nowISO_def setStockMovement_def Let_def)
  have 1: "writesUnderDrawnIds env w ?w3"
    by (rule writesUnderDrawnIds_write [of w "idCtr w" ?w3 env ?mv]) simp_all
  show ?case
    unfolding unfold by (rule writesUnderDrawnIds_trans [OF 1 Cons.IH])
qed

lemma renderRMIn_drawn:
  "writesUnderDrawnIds env w (renderRMIn_handleStockIn env sp qty remark w)"
proof (cases "sp = None \<or> qty \<le> 0")
  case True
  then have "renderRMIn_handleStockIn env sp qty remark w = w"
    by (auto simp: renderRMIn_handleStockIn_def split: option.splits)
  then show ?thesis by (simp add: writesUnderDrawnIds_same)
next
  case False
  then obtain p where p: "sp = Some p" and q: "\<not> qty \<le> 0" by auto
  let ?r = "renderRMIn_handleStockIn env sp qty remark w"
  have "\<exists>mv. stockMovements (db ?r) = dbSet (genIds env (idCtr w)) mv (stockMovements (db w))"
    using p q
    apply (simp add: renderRMIn_handleStockIn_def genId_def todayISO_def nowISO_def Let_def
        setStockMovement_def logAction_eq toast_def)
    apply (rule exI)
    apply (rule refl)
    done
  then obtain mv where m: "stockMovements (db ?r)
      = dbSet (genIds env (idCtr w)) mv (stockMovements (db w))" ..
  have fg: "fgMovements (db ?r) = fgMovements (db w)" and c: "idCtr w < idCtr ?r"
    using p q
    by (simp_all add: renderRMIn_handleStockIn_def genId_def todayISO_def nowISO_def Let_def
        setStockMovement_def logAction_eq toast_def)
  show ?thesis
    by (rule writesUnderDrawnIds_write [OF _ c m fg]) simp
qed

lemma renderFGIn_drawn:
  "writesUnderDrawnIds env w (renderFGIn_handleStockIn env sp qty remark w)"
proof (cases "sp = None \<or> qty \<le> 0")
  case True
  then have "renderFGIn_handleStockIn env sp qty remark w = w"
    by (auto simp: renderFGIn_handleStockIn_def split: option.splits)
  then show ?thesis by (simp add: writesUnderDrawnIds_same)
next
  case False
  then obtain p where p: "sp = Some p" and q: "\<not> qty \<le> 0" by auto
  let ?r = "renderFGIn_handleStockIn env sp qty remark w"
  have "\<exists>mv. stockMovements (db ?r) = dbSet (genIds env (idCtr w)) mv (stockMovements (db w))"
    using p q
    apply (simp add: renderFGIn_handleStockIn_def genId_def todayISO_def nowISO_def Let_def
        setStockMovement_def logAction_eq toast_def)
    apply (rule exI)
    apply (rule refl)
    done
  then obtain mv where m: "stockMovements (db ?r)
      = dbSet (genIds env (idCtr w)) mv (stockMovements (db w))" ..
  have fg: "fgMovements (db ?r) = fgMovements (db w)" and c: "idCtr w < idCtr ?r"
    using p q
    by (simp_all add: renderFGIn_handleStockIn_def genId_def todayISO_def nowISO_def Let_def
        setStockMovement_def logAction_eq toast_def)
  show ?thesis
    by (rule writesUnderDrawnIds_write [OF _ c m fg]) simp
qed

lemma renderRMOut_drawn:
  "writesUnderDrawnIds env w (renderRMOut_handleStockOut env sp qty remark w)"
proof (cases "sp = None \<or> qty \<le> 0
    \<or> (\<exists>p. sp = Some p \<and> qty > computeBalance (movements env) (rm_id p) False)")
  case True
  then have "db (renderRMOut_handleStockOut env sp qty remark w) = db w"
    by (rule renderRMOut_handleStockOut_reject)
  moreover have "idCtr (renderRMOut_handleStockOut env sp qty remark w) = idCtr w"
    using True
    by (auto simp: renderRMOut_handleStockOut_def toast_def split: option.splits)
  ultimately show ?thesis by (simp add: writesUnderDrawnIds_same)
next
  case False
  then obtain p where p: "sp = Some p" and q: "\<not> qty \<le> 0"
    and b: "\<not> qty > computeBalance (movements env) (rm_id p) False" by auto
  let ?r = "renderRMOut_handleStockOut env sp qty remark w"
  have "\<exists>mv. stockMovements (db ?r) = dbSet (genIds env (idCtr w)) mv (stockMovements (db w))"
    using p q b
    apply (simp add: renderRMOut_handleStockOut_def genId_def todayISO_def nowISO_def Let_def
        setStockMovement_def logAction_eq toast_def)
    apply (rule exI)
    apply (rule refl)
    done
  then obtain mv where m: "stockMovements (db ?r)
      = dbSet (genIds env (idCtr w)) mv (stockMovements (db w))" ..
  have fg: "fgMovements (db ?r) = fgMovements (db w)" and c: "idCtr w < idCtr ?r"
    using p q b
    by (simp_all add: renderRMOut_handleStockOut_def genId_def todayISO_def nowISO_def Let_def
        setStockMovement_def logAction_eq toast_def)
  show ?thesis
    by (rule writesUnderDrawnIds_write [OF _ c m fg]) simp
qed

lemma renderFGOut_drawn:
  "writesUnderDrawnIds env w (renderFGOut_handleStockOut env sp qty remark w)"
proof (cases "sp = None \<or> qty \<le> 0
    \<or> (\<exists>p. sp = Some p \<and> qty > computeBalance (movements env) (fg_id p) True)")
  case True
  then have "db (renderFGOut_handleStockOut env sp qty remark w) = db w"
    by (rule renderFGOut_handleStockOut_reject)
  moreover have "idCtr (renderFGOut_handleStockOut env sp qty remark w) = idCtr w"
    using True
    by (auto simp: renderFGOut_handleStockOut_def toast_def split: option.splits)
  ultimately show ?thesis by (simp add: writesUnderDrawnIds_same)
next
  case False
  then obtain p where p: "sp = Some p" and q: "\<not> qty \<le> 0"
    and b: "\<not> qty > computeBalance (movements env) (fg_id p) True" by auto
  let ?r = "renderFGOut_handleStockOut env sp qty remark w"
  have "\<exists>mv. stockMovements (db ?r) = dbSet (genIds env (idCtr w)) mv (stockMovements (db w))"
    using p q b
    apply (simp add: renderFGOut_handleStockOut_def genId_def todayISO_def nowISO_def Let_def
        setStockMovement_def logAction_eq toast_def)
    apply (rule exI)
    apply (rule refl)
    done
  then obtain mv where m: "stockMovements (db ?r)
      = dbSet (genIds env (idCtr w)) mv (stockMovements (db w))" ..
  have fg: "fgMovements (db ?r) = fgMovements (db w)" and c: "idCtr w < idCtr ?r"
    using p q b
    by (simp_all add: renderFGOut_handleStockOut_def genId_def todayISO_def nowISO_def Let_def
        setStockMovement_def logAction_eq toast_def)
  show ?thesis
    by (rule writesUnderDrawnIds_write [OF _ c m fg]) simp
qed

lemma renderProductionAdd_drawn:
  "writesUnderDrawnIds env w (renderProductionAdd_handleSubmit env sp qty batch expiry w)"
proof (cases "sp = None \<or> qty \<le> 0")
  case True
  then have "renderProductionAdd_handleSubmit env sp qty batch expiry w = w"
    by (auto simp: renderProductionAdd_handleSubmit_def split: option.splits)
  then show ?thesis by (simp add: writesUnderDrawnIds_same)
next
  case False
  then obtain p where p: "sp = Some p" and q: "\<not> qty \<le> 0" by auto
  let ?r = "renderProductionAdd_handleSubmit env sp qty batch expiry w"
  have "\<exists>mv. stockMovements (db ?r)
      = dbSet (genIds env (Suc (idCtr w))) mv (stockMovements (db w))"
    using p q
    apply (simp add: renderProductionAdd_handleSubmit_def genId_def todayISO_def nowISO_def
        Let_def setStockMovement_def logAction_eq toast_def)
    apply (rule exI)
    apply (rule refl)
    done
  then obtain mv where m: "stockMovements (db ?r)
      = dbSet (genIds env (Suc (idCtr w))) mv (stockMovements (db w))" ..
  have fg: "fgMovements (db ?r) = fgMovements (db w)" and c: "Suc (idCtr w) < idCtr ?r"
    using p q
    by (simp_all add: renderProductionAdd_handleSubmit_def genId_def todayISO_def nowISO_def
        Let_def setStockMovement_def logAction_eq toast_def)
  show ?thesis
    by (rule writesUnderDrawnIds_write [OF _ c m fg]) simp
qed

lemma renderGRN_drawn:
  "writesUnderDrawnIds env w (renderGRN_handleSubmit env sp billNo date items w)"
proof (cases "sp = None \<or> items = []")
  case True
  then have "renderGRN_handleSubmit env sp billNo date items w = w"
    by (auto simp: renderGRN_handleSubmit_def split: option.splits)
  then show ?thesis by (simp add: writesUnderDrawnIds_same)
next
  case False
  then obtain supplier where p: "sp = Some supplier" and ne: "items \<noteq> []" by auto
  let ?c = "idCtr w"
  let ?bill = "\<lparr> b_id = genIds env ?c, b_billNo = billNo, b_date = date,
                   b_supplierId = s_id supplier, b_supplierName = s_name supplier,
                   b_items = items, b_createdAt = clockISO env (tick w),
                   b_createdBy = actor env, b_updatedAt = None, b_updatedBy = None \<rparr>"
  let ?w3 = "w\<lparr> idCtr := Suc ?c, tick := Suc (tick w),
                 db := (db w)\<lparr> bills := dbSet (genIds env ?c) ?bill (bills (db w)) \<rparr> \<rparr>"
  have 1: "writesUnderDrawnIds env w ?w3"
    by (rule writesUnderDrawnIds_same) simp_all
  have 2: "writesUnderDrawnIds env w
      (renderGRN_addMovements env (genIds env ?c) billNo date items ?w3)"
    by (rule writesUnderDrawnIds_trans [OF 1 renderGRN_addMovements_drawn])
  show ?thesis
    unfolding p renderGRN_handleSubmit_run [OF ne]
    by (intro writesUnderDrawnIds_toast writesUnderDrawnIds_logAction 2)
qed

lemma renderDN_drawn:
  "writesUnderDrawnIds env w (renderDN_handleSubmit env dnNo date to items w)"
proof -
  let ?P = "\<lambda>item. li_qty item > computeBalance (movements env) (li_productId item) True"
  let ?r = "renderDN_handleSubmit env dnNo date to items w"
  consider "items = []" | "\<exists>item\<in>set items. ?P item"
    | "items \<noteq> []" "find ?P items = None"
    by (auto simp: find_None_iff)
  then show ?thesis
  proof cases
    case 1
    then have "?r = w" by (simp add: renderDN_handleSubmit_def)
    then show ?thesis by (simp add: writesUnderDrawnIds_same)
  next
    case 2
    from renderDN_handleSubmit_reject [OF this, of dnNo date to w]
    obtain x :: LineItem where "?r = toast (ToastError (''Insufficient stock for item '' @ li_productId x)) w"
      by blast
    then show ?thesis
      by (simp add: writesUnderDrawnIds_toast writesUnderDrawnIds_same)
  next
    case 3
    let ?c = "idCtr w"
    let ?dn = "\<lparr> dn_id = genIds env ?c, dn_dnNo = dnNo, dn_date = date,
                     dn_from = ''Main Warehouse'', dn_to = to, dn_productionPlan = '''',
                     dn_prodRef = '''', dn_generalRemark = '''', dn_items = items,
                     dn_createdAt = clockISO env (tick w), dn_createdBy = actor env \<rparr>"
    let ?w3 = "w\<lparr> idCtr := Suc ?c, tick := Suc (tick w),
                 db := (db w)\<lparr> deliveryNotes
                    := dbSet (genIds env ?c) ?dn (deliveryNotes (db w)) \<rparr> \<rparr>"
    have run: "?r = toast (ToastSuccess ''Delivery Note saved and stock updated'')
            (logAction env ''DN_ADD'' (genIds env ?c) (D_DeliveryNote ?dn)
               (renderDN_addMovements env dnNo date items ?w3))"
      using 3 by (simp add: renderDN_handleSubmit_def genId_def nowISO_def Let_def)
    have 1: "writesUnderDrawnIds env w ?w3"
      by (rule writesUnderDrawnIds_same) simp_all
    have 2: "writesUnderDrawnIds env w (renderDN_addMovements env dnNo date items ?w3)"
      by (rule writesUnderDrawnIds_trans [OF 1 renderDN_addMovements_drawn])
    show ?thesis
      unfolding run
      by (intro writesUnderDrawnIds_toast writesUnderDrawnIds_logAction 2)
  qed
qed

lemma supplier_user_drawn:
  "writesUnderDrawnIds env w (renderSuppliers_handleSubmit env sform isEditing w)"
  "writesUnderDrawnIds env w (renderSuppliers_delete env s confirmed w)"
  "writesUnderDrawnIds env w (renderUserManagement_handleSubmit env uform isEditing w)"
  "writesUnderDrawnIds env w (renderUserManagement_delete env u confirmed w)"
  by (rule writesUnderDrawnIds_same;
      simp add: renderSuppliers_handleSubmit_def renderSuppliers_delete_def
        renderUserManagement_handleSubmit_def renderUserManagement_delete_def
        genId_def nowISO_def Let_def logAction_eq toast_def split: option.splits)+

lemma step_drawn: "writesUnderDrawnIds env w (step env op w)"
  by (cases op)
     (simp_all add: renderRMIn_drawn renderRMOut_drawn renderFGIn_drawn
        renderFGOut_drawn renderProductionAdd_drawn renderGRN_drawn renderDN_drawn
        supplier_user_drawn)

text \<open>
  C8, as amended. No modelled operation (stock-in and stock-out of raw materials and
  finished goods, production, GRN, delivery note, supplier and user submit and delete),
  run on any form state, deletes a Movement: every key of the movement collection is
  still a key afterwards. An operation writes Movement records only under identifiers
  that \<^verbatim>\<open>genId\<close> returned during the operation: under every other key the collection
  holds afterwards what it held before, and the legacy node \<^verbatim>\<open>fgMovements\<close> is untouched.
  An identifier returned during the operation that is already the key of a Movement
  can have its record replaced. When the generated identifiers are pairwise distinct
  and not in use, the collection afterwards is the collection before, in place and
  unchanged, followed by the new records.
\<close>

theorem movements_change_only_under_drawn_ids:
  "idCtr w \<le> idCtr (step env op w)
   \<and> fst ` set (stockMovements (db w)) \<subseteq> fst ` set (stockMovements (db (step env op w)))
   \<and> (\<forall>k. k \<notin> genIds env ` {idCtr w..<idCtr (step env op w)}
          \<longrightarrow> map_of (stockMovements (db (step env op w))) k
              = map_of (stockMovements (db w)) k)
   \<and> fgMovements (db (step env op w)) = fgMovements (db w)
   \<and> (freshIds env w \<longrightarrow>
        (\<exists>new. stockMovements (db (step env op w)) = stockMovements (db w) @ new
              \<and> fst ` set new \<subseteq> genIds env ` {idCtr w..})
        \<and> (\<forall>km\<in>set (stockMovements (db w)). km \<in> set (stockMovements (db (step env op w))))
        \<and> (\<forall>k\<in>fst ` set (stockMovements (db w)).
              map_of (stockMovements (db (step env op w))) k
              = map_of (stockMovements (db w)) k))"
proof (intro conjI impI allI)
  note d = writesUnderDrawnIds_D [OF step_drawn [of env w op]]
  show "idCtr w \<le> idCtr (step env op w)" by (rule d(1))
  show "fst ` set (stockMovements (db w)) \<subseteq> fst ` set (stockMovements (db (step env op w)))"
    by (rule d(2))
  show "fgMovements (db (step env op w)) = fgMovements (db w)" by (rule d(4))
  show "map_of (stockMovements (db (step env op w))) k = map_of (stockMovements (db w)) k"
    if "k \<notin> genIds env ` {idCtr w..<idCtr (step env op w)}" for k
    using that by (rule d(3))
next
  assume fr: "freshIds env w"
  from step_appends [OF fr, of op]
  obtain new where new: "stockMovements (db (step env op w)) = stockMovements (db w) @ new"
    "fst ` set new \<subseteq> genIds env ` {idCtr w..}"
    unfolding appendsMovements_def by blast
  show "\<exists>new. stockMovements (db (step env op w)) = stockMovements (db w) @ new
              \<and> fst ` set new \<subseteq> genIds env ` {idCtr w..}"
    by (intro exI [of _ new] conjI new)
  show "\<forall>km\<in>set (stockMovements (db w)). km \<in> set (stockMovements (db (step env op w)))"
    unfolding new(1) by simp
  show "\<forall>k\<in>fst ` set (stockMovements (db w)).
               map_of (stockMovements (db (step env op w))) k
               = map_of (stockMovements (db w)) k"
  proof
    fix k assume "k \<in> fst ` set (stockMovements (db w))"
    then have "k \<in> dom (map_of (stockMovements (db w)))"
      by (simp add: dom_map_of_conv_image_fst)
    then show "map_of (stockMovements (db (step env op w))) k
               = map_of (stockMovements (db w)) k"
      unfolding new(1) by (simp add: map_add_dom_app_simps)
  qed
qed

theorem movements_change_only_under_drawn_ids_witness:
  "freshIds scenarioEnv scenarioWorld
   \<and> stockMovements (db scenarioWorld) = [(''mv-1'', scenarioFGIn15)]
   \<and> map_of (stockMovements (db (step scenarioEnv
         (DNSubmit ''DN-1'' ''2024-03-14'' ''Customer''
            [scenarioLine ''fg-a'' 10, scenarioLine ''fg-a'' 10]) scenarioWorld))) ''mv-1''
       = Some scenarioFGIn15
   \<and> length (stockMovements (db (step scenarioEnv
         (DNSubmit ''DN-1'' ''2024-03-14'' ''Customer''
            [scenarioLine ''fg-a'' 10, scenarioLine ''fg-a'' 10]) scenarioWorld))) = 3
   \<and> ''mv-1'' \<notin> genIds scenarioRepeatEnv ` {idCtr scenarioWorld..<idCtr (step scenarioRepeatEnv
         (GRNSubmit (Some scenarioSupplier) ''B-1'' ''2024-03-14''
            [scenarioLine ''rm-a'' 4, scenarioLine ''rm-a'' 6]) scenarioWorld)}
   \<and> map_of (stockMovements (db (step scenarioRepeatEnv
         (GRNSubmit (Some scenarioSupplier) ''B-1'' ''2024-03-14''
            [scenarioLine ''rm-a'' 4, scenarioLine ''rm-a'' 6]) scenarioWorld))) ''mv-1''
       = Some scenarioFGIn15"
proof -
  let ?op = "DNSubmit ''DN-1'' ''2024-03-14'' ''Customer''
            [scenarioLine ''fg-a'' 10, scenarioLine ''fg-a'' 10]"
  let ?grn = "GRNSubmit (Some scenarioSupplier) ''B-1'' ''2024-03-14''
            [scenarioLine ''rm-a'' 4, scenarioLine ''rm-a'' 6]"
  have old: "stockMovements (db scenarioWorld) = [(''mv-1'', scenarioFGIn15)]"
    by (simp add: scenarioWorld_def scenarioStore_def)
  note inst = movements_change_only_under_drawn_ids [where env = scenarioEnv
      and w = scenarioWorld and op = ?op]
  from inst scenario_freshIds
  have "\<forall>k\<in>fst ` set (stockMovements (db scenarioWorld)).
               map_of (stockMovements (db (step scenarioEnv ?op scenarioWorld))) k
               = map_of (stockMovements (db scenarioWorld)) k"
    by blast
  then have look: "map_of (stockMovements (db (step scenarioEnv ?op scenarioWorld))) ''mv-1''
       = Some scenarioFGIn15"
    by (simp add: old)
  have len: "length (stockMovements (db (step scenarioEnv ?op scenarioWorld))) = 3"
    by (simp add: scenario_two_lines_movements)
  have nd: "''mv-1'' \<notin> genIds scenarioRepeatEnv ` {idCtr scenarioWorld..<idCtr (step scenarioRepeatEnv ?grn scenarioWorld)}"
    by (simp add: scenarioRepeatEnv_def image_iff)
  note rep = movements_change_only_under_drawn_ids [where env = scenarioRepeatEnv
      and w = scenarioWorld and op = ?grn]
  note rep3 = rep [THEN conjunct2, THEN conjunct2, THEN conjunct1]
  have "map_of (stockMovements (db (step scenarioRepeatEnv ?grn scenarioWorld))) ''mv-1''
       = map_of (stockMovements (db scenarioWorld)) ''mv-1''"
    by (rule rep3 [THEN spec, THEN mp, OF nd])
  then have kept: "map_of (stockMovements (db (step scenarioRepeatEnv ?grn scenarioWorld)))
       ''mv-1'' = Some scenarioFGIn15"
    by (simp add: old)
  show ?thesis
    by (intro conjI scenario_freshIds old look len nd kept)
qed

text \<open>
  A raw-material stock-in whose generated identifier, \<^verbatim>\<open>id_a\<close>, is already the key of a
  Movement (IN 15 on the finished good \<^verbatim>\<open>fg-a\<close>): the existing record is replaced by the
  new one (IN 5 on the raw material \<^verbatim>\<open>rm-a\<close>), and the collection holds one record before
  and after.
\<close>

theorem stockIn_replaces_movement_counterexample:
  "map (\<lambda>kv. (fst kv, m_type (snd kv), m_productId (snd kv), m_fgId (snd kv),
               m_quantity (snd kv)))
      (stockMovements (db scenarioUsedIdWorld))
     = [(''id_a'', IN, None, Some ''fg-a'', Some 15)]
   \<and> map (\<lambda>kv. (fst kv, m_type (snd kv), m_productId (snd kv), m_fgId (snd kv),
               m_quantity (snd kv)))
      (stockMovements (db (step scenarioEnv (RMStockIn (Some scenarioItem) 5 [])
         scenarioUsedIdWorld)))
     = [(''id_a'', IN, Some ''rm-a'', None, Some 5)]
   \<and> map_of (stockMovements (db (step scenarioEnv (RMStockIn (Some scenarioItem) 5 [])
         scenarioUsedIdWorld))) ''id_a''
     \<noteq> map_of (stockMovements (db scenarioUsedIdWorld)) ''id_a''"
  by (simp add: renderRMIn_handleStockIn_def genId_def todayISO_def nowISO_def Let_def
      setStockMovement_def logAction_eq toast_def scenarioUsedIdWorld_def scenarioWorld_def
      scenarioStore_def scenarioEnv_def scenarioIds_def scenarioItem_def scenarioFGIn15_def)

end
